theory Spec2Isabelle
  imports Main "HOL-Library.Sublist" "HOL-Library.Word"
begin

section \<open>Python text and bytes\<close>

text \<open>
  A Python \<open>str\<close> is a sequence of Unicode code points, so \<open>len\<close> and slicing count
  code points, not bytes. A code point is a natural number; a literal of the source is
  written \<open>lit ''...''\<close>. Bytes read from a file are 8-bit words.
\<close>

type_synonym pystr = "nat list"
type_synonym bytes = "8 word list"

definition lit :: "string \<Rightarrow> pystr" where
  "lit s = map of_char s"

definition NL :: nat where
  "NL = 10"

definition DOT :: nat where
  "DOT = 46"

text \<open>Length of the UTF-8 encoding of a text, in bytes.\<close>

definition utf8_len :: "nat \<Rightarrow> nat" where
  "utf8_len c = (if c < 128 then 1 else if c < 2048 then 2 else if c < 65536 then 3 else 4)"

definition byte_length :: "pystr \<Rightarrow> nat" where
  "byte_length s = sum_list (map utf8_len s)"

text \<open>\<open>s.split(c)\<close> for a separator of one character: never empty, \<open>"".split(c) == [""]\<close>.
  The split of the rest is never empty, so the first branch of the \<open>case\<close> is never taken.\<close>

fun split_on :: "'a \<Rightarrow> 'a list \<Rightarrow> 'a list list" where
  "split_on c [] = [[]]"
| "split_on c (x # xs) =
     (if x = c then [] # split_on c xs
      else (case split_on c xs of
              [] \<Rightarrow> [[x]]
            | l # ls \<Rightarrow> (x # l) # ls))"

text \<open>\<open>sep.join(parts)\<close>.\<close>

fun join :: "'a list \<Rightarrow> 'a list list \<Rightarrow> 'a list" where
  "join sep [] = []"
| "join sep [l] = l"
| "join sep (l # m # ls) = l @ sep @ join sep (m # ls)"

text \<open>\<open>xs[-2]\<close>: the element before the last one; IndexError (\<open>None\<close>) on a list
  shorter than two.\<close>

definition index_minus2 :: "'a list \<Rightarrow> 'a option" where
  "index_minus2 xs = (if length xs < 2 then None else Some (xs ! (length xs - 2)))"

text \<open>\<open>s.rfind(c)\<close>: the last position of \<open>c\<close>, \<open>None\<close> for Python's \<open>-1\<close>.\<close>

fun rfind :: "'a \<Rightarrow> 'a list \<Rightarrow> nat option" where
  "rfind c [] = None"
| "rfind c (x # xs) =
     (case rfind c xs of
        Some i \<Rightarrow> Some (Suc i)
      | None \<Rightarrow> if x = c then Some 0 else None)"

text \<open>\<open>PurePath.suffix\<close> of a file name: the text from the last dot on, unless that
  dot is the first or the last character of the name.\<close>

definition path_suffix :: "pystr \<Rightarrow> pystr" where
  "path_suffix name =
     (case rfind DOT name of
        None \<Rightarrow> []
      | Some i \<Rightarrow> if 0 < i \<and> i < length name - 1 then drop i name else [])"

text \<open>\<open>str.lower\<close> on the letters A to Z. No other code point lowers to a letter of
  \<open>.png\<close> or \<open>.pyc\<close>, the only texts the result is compared with.\<close>

definition lower_cp :: "nat \<Rightarrow> nat" where
  "lower_cp c = (if 65 \<le> c \<and> c \<le> 90 then c + 32 else c)"

definition lower :: "pystr \<Rightarrow> pystr" where
  "lower s = map lower_cp s"

text \<open>\<open>str(n)\<close> of an integer, as an f-string prints it.\<close>

function str_nat :: "nat \<Rightarrow> pystr" where
  "str_nat n = (if n < 10 then [48 + n] else str_nat (n div 10) @ [48 + n mod 10])"
  by pat_completeness auto
termination
  by (relation "measure id") auto

declare str_nat.simps [simp del]

definition str_int :: "int \<Rightarrow> pystr" where
  "str_int i = (if i < 0 then 45 # str_nat (nat (- i)) else str_nat (nat i))"

text \<open>\<open>base64.b64encode(data).decode("utf-8")\<close>.\<close>

definition b64_alphabet :: pystr where
  "b64_alphabet = lit ''ABCDEFGHIJKLMNOPQRSTUVWXYZabcdefghijklmnopqrstuvwxyz0123456789+/''"

definition b64_char :: "nat \<Rightarrow> nat" where
  "b64_char n = b64_alphabet ! (n mod 64)"

fun b64encode :: "bytes \<Rightarrow> pystr" where
  "b64encode (a # b # c # rest) =
     (let n = unat a * 65536 + unat b * 256 + unat c
      in [b64_char (n div 262144), b64_char (n div 4096), b64_char (n div 64), b64_char n]
         @ b64encode rest)"
| "b64encode [a, b] =
     (let n = unat a * 65536 + unat b * 256
      in [b64_char (n div 262144), b64_char (n div 4096), b64_char (n div 64), 61])"
| "b64encode [a] =
     (let n = unat a * 65536
      in [b64_char (n div 262144), b64_char (n div 4096), 61, 61])"
| "b64encode [] = []"

section \<open>Settings and data model\<close>

text \<open>
  \<open>MAX_OUTPUT_SIZE\<close> is a constant of the source; \<open>EXECUTION_TIMEOUT\<close> and
  \<open>WORK_DIR\<close> are read from the process environment at start-up and are parameters here.
  A path is the list of its components.
\<close>

type_synonym path = "pystr list"

definition MAX_OUTPUT_SIZE :: nat where
  "MAX_OUTPUT_SIZE = 100 * 1024"

record settings =
  EXECUTION_TIMEOUT :: int
  WORK_DIR :: path

text \<open>A request as the handler receives it. The \<open>timeout\<close> field is \<open>Optional[int] = 30\<close>:
  a request that leaves it out arrives with \<open>Some 30\<close>, and \<open>None\<close> is an explicit null.\<close>

record ExecuteRequest =
  code :: pystr
  timeout :: "int option"

record AdvancedExecuteRequest =
  adv_code :: pystr
  adv_timeout :: "int option"
  dependencies :: "pystr list"
  output_files :: "pystr list"

record PlotResult =
  plot_format :: pystr
  plot_data :: pystr

record FileResult =
  filename :: pystr
  file_data :: pystr
  file_size :: nat

text \<open>The \<open>result\<close> dictionary of \<open>execute_python_code\<close>. The wall-clock
  \<open>execution_time\<close> is left out of the dictionary and of the responses.\<close>

record exec_result =
  stdout :: pystr
  stderr :: pystr
  error :: "pystr option"
  plots :: "PlotResult list"
  files :: "FileResult list"
  install_output :: pystr

record ExecuteResponse =
  success :: bool
  resp_stdout :: pystr
  resp_stderr :: pystr
  resp_error :: "pystr option"
  resp_plots :: "PlotResult list"

record AdvancedExecuteResponse =
  adv_success :: bool
  adv_stdout :: pystr
  adv_stderr :: pystr
  adv_error :: "pystr option"
  adv_plots :: "PlotResult list"
  adv_files :: "FileResult list"
  adv_install_output :: pystr

section \<open>The world outside the service\<close>

text \<open>
  \<open>subprocess.run\<close> ends in one of three ways: the child exited (return code, stdout,
  stderr), \<open>TimeoutExpired\<close> was raised (the exception carries the output captured until
  the kill), or another exception was raised.
\<close>

datatype proc_outcome =
  Exited int pystr pystr
| TimeoutExpired pystr pystr
| ProcFault

datatype fault = IndexError | OSError

text \<open>An entry of a directory listing: its name, what \<open>Path.is_file()\<close> answers for it,
  and what \<open>open(p, "rb").read()\<close> returns for it, \<open>None\<close> when that raises (a directory,
  a file without read permission).\<close>

record dir_entry =
  entry_name :: pystr
  entry_is_file :: bool
  entry_content :: "bytes option"

text \<open>
  What the environment answers during one request: how pip and the child end, which
  directories the child makes below its workspace, what the listings of the workspace
  hold afterwards, and which system calls fail.
\<close>

record env =
  pip_outcome :: proc_outcome
  write_script_ok :: bool
  script_outcome :: proc_outcome
  child_dirs :: "path list"
  listing_ok :: bool
  plot_dir_entries :: "dir_entry list"
  exec_dir_entries :: "dir_entry list"
  rmtree_ok :: "path \<Rightarrow> bool"
  upload_ok :: "pystr \<Rightarrow> bool"

datatype warning = PlotReadFailed pystr | FileReadFailed pystr | CleanupFailed path

datatype event =
  Mkdir path
| Rmtree path
| SpawnPip "pystr list" int
| WriteScript path
| SpawnScript path int
| WriteUpload path
| Warn warning

text \<open>The state threaded through a request: the directories that exist, and the
  effects performed so far, in order. Directory creation is taken to succeed.\<close>

record world =
  dirs :: "path list"
  trace :: "event list"

definition emit :: "event \<Rightarrow> world \<Rightarrow> world" where
  "emit ev w = w\<lparr>trace := trace w @ [ev]\<rparr>"

definition mkdir :: "path \<Rightarrow> world \<Rightarrow> world" where
  "mkdir d w = emit (Mkdir d) (w\<lparr>dirs := List.insert d (dirs w)\<rparr>)"

text \<open>\<open>shutil.rmtree(d)\<close>: on success nothing at or below \<open>d\<close> is left.\<close>

definition rmtree :: "env \<Rightarrow> path \<Rightarrow> world \<Rightarrow> world \<times> bool" where
  "rmtree e d w =
     (if rmtree_ok e d
      then (emit (Rmtree d) (w\<lparr>dirs := filter (\<lambda>p. \<not> prefix d p) (dirs w)\<rparr>), True)
      else (emit (Rmtree d) w, False))"


text \<open>How a stage inside the \<open>try\<close> block ends: an exception, a \<open>return\<close>, or
  falling through to the next statement.\<close>

datatype 'a flow = Raise fault | Return 'a | Continue 'a

section \<open>\<open>execute_python_code\<close>\<close>

text \<open>The \<open>if dependencies:\<close> block. \<open>None\<close> and the empty list are both false.\<close>

definition install_dependencies ::
  "env \<Rightarrow> pystr list option \<Rightarrow> world \<Rightarrow> exec_result \<Rightarrow> world \<times> exec_result flow" where
  "install_dependencies e deps w r =
     (case deps of
        None \<Rightarrow> (w, Continue r)
      | Some ds \<Rightarrow>
          if ds = [] then (w, Continue r)
          else
            (let w1 = emit (SpawnPip ds 60) w
             in case pip_outcome e of
                  Exited rc out err \<Rightarrow>
                    (let r1 = r\<lparr>install_output := out @ err\<rparr>
                     in if rc \<noteq> 0
                        then (w1, Return (r1\<lparr>error :=
                                Some (lit ''Failed to install dependencies: '' @ install_output r1)\<rparr>))
                        else (w1, Continue r1))
                | TimeoutExpired out err \<Rightarrow>
                    (w1, Return (r\<lparr>error := Some (lit ''Dependency installation timed out'')\<rparr>))
                | ProcFault \<Rightarrow> (w1, Raise OSError)))"

text \<open>The error message after a non-zero exit. \<open>stderr.split("\n")[-2]\<close> raises
  IndexError when the text has no newline.\<close>

definition extract_error :: "pystr \<Rightarrow> fault + pystr" where
  "extract_error err =
     (if sublist (lit ''Error:'') err
      then (if err \<noteq> []
            then (case index_minus2 (split_on NL err) of
                    None \<Rightarrow> Inl IndexError
                  | Some l \<Rightarrow> Inr l)
            else Inr (lit ''Execution failed''))
      else Inr (if err \<noteq> [] then err else lit ''Execution failed with non-zero exit code''))"

text \<open>Writing \<open>script.py\<close> and running it. The text of the script enters no property
  below: what the child does is what the environment says.\<close>

definition run_script ::
  "env \<Rightarrow> path \<Rightarrow> int \<Rightarrow> world \<Rightarrow> exec_result \<Rightarrow> world \<times> exec_result flow" where
  "run_script e exec_dir tmo w r =
     (let code_file = exec_dir @ [lit ''script.py''];
          w1 = emit (WriteScript code_file) w
      in if \<not> write_script_ok e then (w1, Raise OSError)
         else
           (let w2 = emit (SpawnScript code_file tmo)
                       (w1\<lparr>dirs := dirs w1 @ map (\<lambda>p. exec_dir @ p) (child_dirs e)\<rparr>)
            in case script_outcome e of
                 Exited rc out err \<Rightarrow>
                   (let r1 = r\<lparr>stdout := (if out \<noteq> [] then take MAX_OUTPUT_SIZE out else []),
                                 stderr := (if err \<noteq> [] then take MAX_OUTPUT_SIZE err else [])\<rparr>
                    in if rc \<noteq> 0
                       then (case extract_error (stderr r1) of
                               Inl f \<Rightarrow> (w2, Raise f)
                             | Inr m \<Rightarrow> (w2, Continue (r1\<lparr>error := Some m\<rparr>)))
                       else (w2, Continue r1))
               | TimeoutExpired out err \<Rightarrow>
                   (w2, Continue (r\<lparr>
                      error := Some (lit ''Execution timed out after '' @ str_int tmo @ lit '' seconds''),
                      stderr := lit ''TimeoutError: Code execution exceeded '' @ str_int tmo
                                  @ lit '' second limit''\<rparr>))
               | ProcFault \<Rightarrow> (w2, Raise OSError)))"

text \<open>\<open>d.glob("*.png")\<close>: the entries whose name ends in \<open>.png\<close>, in listing order.\<close>

definition glob_png :: "dir_entry list \<Rightarrow> dir_entry list" where
  "glob_png es = filter (\<lambda>f. suffix (lit ''.png'') (entry_name f)) es"

text \<open>The plot loop opens every entry that the two globs list, whatever its kind, and
  skips the ones whose \<open>open\<close> or \<open>read\<close> raises.\<close>

fun collect_plots :: "dir_entry list \<Rightarrow> world \<Rightarrow> exec_result \<Rightarrow> world \<times> exec_result" where
  "collect_plots [] w r = (w, r)"
| "collect_plots (f # fs) w r =
     (case entry_content f of
        Some bs \<Rightarrow>
          collect_plots fs w
            (r\<lparr>plots := plots r @ [\<lparr>plot_format = lit ''png'', plot_data = b64encode bs\<rparr>]\<rparr>)
      | None \<Rightarrow> collect_plots fs (emit (Warn (PlotReadFailed (entry_name f))) w) r)"

definition strip_plot_markers :: "pystr \<Rightarrow> pystr" where
  "strip_plot_markers s =
     (if s \<noteq> []
      then join [NL] (filter (\<lambda>line. \<not> prefix (lit ''[PLOT_SAVED]'') line) (split_on NL s))
      else s)"

fun collect_files :: "dir_entry list \<Rightarrow> world \<Rightarrow> exec_result \<Rightarrow> world \<times> exec_result" where
  "collect_files [] w r = (w, r)"
| "collect_files (f # fs) w r =
     (if entry_is_file f \<and> entry_name f \<noteq> lit ''script.py''
      then (if lower (path_suffix (entry_name f)) \<notin> set [lit ''.png'', lit ''.pyc'']
            then (case entry_content f of
                    Some bs \<Rightarrow>
                      collect_files fs w
                        (r\<lparr>files := files r @
                           [\<lparr>filename = entry_name f, file_data = b64encode bs,
                             file_size = length bs\<rparr>]\<rparr>)
                  | None \<Rightarrow>
                      collect_files fs (emit (Warn (FileReadFailed (entry_name f))) w) r)
            else collect_files fs w r)
      else collect_files fs w r)"

text \<open>The two tests of lines 266 and 267 that a listed entry must pass to be read as an
  output file.\<close>

definition is_output_file :: "dir_entry \<Rightarrow> bool" where
  "is_output_file f \<longleftrightarrow> entry_is_file f \<and> entry_name f \<noteq> lit ''script.py'' \<and>
     lower (path_suffix (entry_name f)) \<noteq> lit ''.png'' \<and>
     lower (path_suffix (entry_name f)) \<noteq> lit ''.pyc''"

text \<open>An image file as line 267 recognises it: the suffix of the name, in lower case, is
  \<open>.png\<close>.\<close>

definition is_png_image :: "dir_entry \<Rightarrow> bool" where
  "is_png_image f \<longleftrightarrow> lower (path_suffix (entry_name f)) = lit ''.png''"

text \<open>Lines 243 to 278: plots, then the marker lines of stdout, then the other files.\<close>

definition collect_artifacts :: "env \<Rightarrow> world \<Rightarrow> exec_result \<Rightarrow> world \<times> exec_result flow" where
  "collect_artifacts e w r =
     (if \<not> listing_ok e then (w, Raise OSError)
      else
        (let plot_files = glob_png (plot_dir_entries e) @ glob_png (exec_dir_entries e);
             (w1, r1) = collect_plots plot_files w r;
             r2 = r1\<lparr>stdout := strip_plot_markers (stdout r1)\<rparr>;
             (w2, r3) = collect_files (exec_dir_entries e) w1 r2
         in (w2, Continue r3)))"

text \<open>The body of the \<open>try\<close> block.\<close>

definition try_body ::
  "env \<Rightarrow> int \<Rightarrow> path \<Rightarrow> pystr list option \<Rightarrow> world \<Rightarrow> exec_result \<Rightarrow> world \<times> exec_result flow"
  where
  "try_body e tmo exec_dir deps w r =
     (case install_dependencies e deps w r of
        (w1, Continue r1) \<Rightarrow>
          (case run_script e exec_dir tmo w1 r1 of
             (w2, Continue r2) \<Rightarrow> collect_artifacts e w2 r2
           | (w2, Return r2) \<Rightarrow> (w2, Return r2)
           | (w2, Raise f) \<Rightarrow> (w2, Raise f))
      | (w1, Return r1) \<Rightarrow> (w1, Return r1)
      | (w1, Raise f) \<Rightarrow> (w1, Raise f))"

text \<open>The \<open>finally\<close> block: a failed removal is logged and swallowed.\<close>

definition cleanup :: "env \<Rightarrow> path \<Rightarrow> world \<Rightarrow> world" where
  "cleanup e exec_dir w =
     (case rmtree e exec_dir w of
        (w1, True) \<Rightarrow> w1
      | (w1, False) \<Rightarrow> emit (Warn (CleanupFailed exec_dir)) w1)"

definition initial_result :: exec_result where
  "initial_result =
     \<lparr>stdout = [], stderr = [], error = None, plots = [], files = [], install_output = []\<rparr>"

text \<open>\<open>exec_id\<close> stands for \<open>str(uuid.uuid4())[:8]\<close>. An exception leaves the function
  as \<open>Inl\<close>, after the \<open>finally\<close> block has run.\<close>

definition execute_python_code ::
  "env \<Rightarrow> pystr \<Rightarrow> int \<Rightarrow> path \<Rightarrow> pystr list option \<Rightarrow> world \<Rightarrow> world \<times> (fault + exec_result)"
  where
  "execute_python_code e exec_id tmo work_dir deps w =
     (let exec_dir = work_dir @ [exec_id];
          w1 = mkdir exec_dir w;
          plot_dir = exec_dir @ [lit ''plots''];
          w2 = mkdir plot_dir w1;
          (w3, fl) = try_body e tmo exec_dir deps w2 initial_result;
          w4 = cleanup e exec_dir w3
      in (w4, case fl of Raise f \<Rightarrow> Inl f | Return r \<Rightarrow> Inr r | Continue r \<Rightarrow> Inr r))"

text \<open>The world after \<open>script.py\<close> has been written and the child has run.\<close>

definition spawned :: "env \<Rightarrow> path \<Rightarrow> int \<Rightarrow> world \<Rightarrow> world" where
  "spawned e exec_dir tmo w =
     emit (SpawnScript (exec_dir @ [lit ''script.py'']) tmo)
       (emit (WriteScript (exec_dir @ [lit ''script.py''])) w
          \<lparr>dirs := dirs w @ map (\<lambda>p. exec_dir @ p) (child_dirs e)\<rparr>)"

text \<open>The plots and the files that the two collection loops gather from the listings.\<close>

definition collected_plots :: "env \<Rightarrow> PlotResult list" where
  "collected_plots e =
     map (\<lambda>bs. \<lparr>plot_format = lit ''png'', plot_data = b64encode bs\<rparr>)
       (List.map_filter entry_content
          (glob_png (plot_dir_entries e) @ glob_png (exec_dir_entries e)))"

definition collected_files :: "env \<Rightarrow> FileResult list" where
  "collected_files e =
     map (\<lambda>f. \<lparr>filename = entry_name f, file_data = b64encode (the (entry_content f)),
                file_size = length (the (entry_content f))\<rparr>)
       (filter (\<lambda>f. is_output_file f \<and> entry_content f \<noteq> None) (exec_dir_entries e))"

section \<open>The endpoints\<close>

text \<open>\<open>request.timeout or EXECUTION_TIMEOUT\<close>: \<open>None\<close> and \<open>0\<close> are both false.\<close>

definition py_or :: "int option \<Rightarrow> int \<Rightarrow> int" where
  "py_or t d = (case t of None \<Rightarrow> d | Some v \<Rightarrow> if v = 0 then d else v)"

definition effective_timeout :: "settings \<Rightarrow> int option \<Rightarrow> int" where
  "effective_timeout st t = min (py_or t (EXECUTION_TIMEOUT st)) (EXECUTION_TIMEOUT st)"

definition build_response :: "exec_result \<Rightarrow> ExecuteResponse" where
  "build_response r =
     \<lparr>success = (error r = None), resp_stdout = stdout r, resp_stderr = stderr r,
      resp_error = error r, resp_plots = plots r\<rparr>"

definition build_advanced_response :: "exec_result \<Rightarrow> AdvancedExecuteResponse" where
  "build_advanced_response r =
     \<lparr>adv_success = (error r = None), adv_stdout = stdout r, adv_stderr = stderr r,
      adv_error = error r, adv_plots = plots r, adv_files = files r,
      adv_install_output = install_output r\<rparr>"

definition execute_code ::
  "settings \<Rightarrow> env \<Rightarrow> pystr \<Rightarrow> ExecuteRequest \<Rightarrow> world \<Rightarrow> world \<times> (fault + ExecuteResponse)" where
  "execute_code st e exec_id request w =
     (let tmo = effective_timeout st (timeout request);
          (w1, res) = execute_python_code e exec_id tmo (WORK_DIR st) None w
      in (w1, map_sum id build_response res))"

definition execute_advanced ::
  "settings \<Rightarrow> env \<Rightarrow> pystr \<Rightarrow> AdvancedExecuteRequest \<Rightarrow> world
     \<Rightarrow> world \<times> (fault + AdvancedExecuteResponse)" where
  "execute_advanced st e exec_id request w =
     (let tmo = effective_timeout st (adv_timeout request);
          (w1, res) = execute_python_code e exec_id tmo (WORK_DIR st) (Some (dependencies request)) w
      in (w1, map_sum id build_advanced_response res))"

text \<open>Saving the uploads stops at the first write that fails.\<close>

fun save_uploads :: "env \<Rightarrow> path \<Rightarrow> (pystr \<times> bytes) list \<Rightarrow> world \<Rightarrow> world \<times> bool" where
  "save_uploads e d [] w = (w, True)"
| "save_uploads e d ((name, content) # fs) w =
     (if upload_ok e name then save_uploads e d fs (emit (WriteUpload (d @ [name])) w)
      else (w, False))"

text \<open>\<open>execute_with_files\<close> makes a directory of its own for the uploads and hands it
  to \<open>execute_python_code\<close> as the work directory; its \<open>finally\<close> block swallows a
  failed removal without a log line.\<close>

definition execute_with_files ::
  "settings \<Rightarrow> env \<Rightarrow> pystr \<Rightarrow> pystr \<Rightarrow> pystr \<Rightarrow> (pystr \<times> bytes) list \<Rightarrow> int \<Rightarrow> world
     \<Rightarrow> world \<times> (fault + ExecuteResponse)" where
  "execute_with_files st e exec_id inner_id code_text uploads tmo_requested w =
     (let exec_dir = WORK_DIR st @ [exec_id];
          w1 = mkdir exec_dir w;
          (w2, res) =
            (case save_uploads e exec_dir uploads w1 of
               (w', False) \<Rightarrow> (w', Inl OSError)
             | (w', True) \<Rightarrow>
                 (let tmo = min tmo_requested (EXECUTION_TIMEOUT st);
                      (w'', r) = execute_python_code e inner_id tmo exec_dir None w'
                  in (w'', map_sum id build_response r)));
          w3 = fst (rmtree e exec_dir w2)
      in (w3, res))"

section \<open>Sample settings, environments and requests\<close>

definition st30 :: settings where
  "st30 = \<lparr>EXECUTION_TIMEOUT = 30, WORK_DIR = [lit ''tmp'', lit ''code-executor'']\<rparr>"

definition w0 :: world where
  "w0 = \<lparr>dirs = [], trace = []\<rparr>"

definition script_entry :: dir_entry where
  "script_entry = \<lparr>entry_name = lit ''script.py'', entry_is_file = True, entry_content = Some []\<rparr>"

definition plots_entry :: dir_entry where
  "plots_entry = \<lparr>entry_name = lit ''plots'', entry_is_file = False, entry_content = None\<rparr>"

text \<open>A child that prints \<open>hello\<close> and exits with status 0.\<close>

definition env_hello :: env where
  "env_hello =
     \<lparr>pip_outcome = Exited 0 [] [], write_script_ok = True,
      script_outcome = Exited 0 (lit ''hello'' @ [NL]) [], child_dirs = [], listing_ok = True,
      plot_dir_entries = [], exec_dir_entries = [script_entry, plots_entry],
      rmtree_ok = (\<lambda>p. True), upload_ok = (\<lambda>n. True)\<rparr>"

definition rq5 :: ExecuteRequest where
  "rq5 = \<lparr>code = lit ''print(1)'', timeout = Some 5\<rparr>"

definition arq5 :: AdvancedExecuteRequest where
  "arq5 = \<lparr>adv_code = lit ''print(1)'', adv_timeout = Some 5, dependencies = [],
            output_files = []\<rparr>"

text \<open>A child that is killed at the deadline after writing some output and a plot.\<close>

definition png_entry :: dir_entry where
  "png_entry = \<lparr>entry_name = lit ''plot_1.png'', entry_is_file = True,
                 entry_content = Some [137, 80, 78, 71]\<rparr>"

definition env_timeout :: env where
  "env_timeout =
     \<lparr>pip_outcome = Exited 0 [] [], write_script_ok = True,
      script_outcome = TimeoutExpired (lit ''partial output'') (lit ''partial errors''),
      child_dirs = [], listing_ok = True,
      plot_dir_entries = [], exec_dir_entries = [script_entry, plots_entry, png_entry],
      rmtree_ok = (\<lambda>p. True), upload_ok = (\<lambda>n. True)\<rparr>"

definition rq1 :: ExecuteRequest where
  "rq1 = \<lparr>code = lit ''import time; time.sleep(5)'', timeout = Some 1\<rparr>"

text \<open>A child that writes \<open>Error: boom\<close> to stderr, without a newline, and exits with
  status 1.\<close>

definition env_error_no_newline :: env where
  "env_error_no_newline =
     \<lparr>pip_outcome = Exited 0 [] [], write_script_ok = True,
      script_outcome = Exited 1 [] (lit ''Error: boom''),
      child_dirs = [], listing_ok = True,
      plot_dir_entries = [], exec_dir_entries = [script_entry, plots_entry],
      rmtree_ok = (\<lambda>p. True), upload_ok = (\<lambda>n. True)\<rparr>"

text \<open>A child that ends with an unhandled \<open>ValueError\<close>.\<close>

definition env_traceback :: env where
  "env_traceback =
     \<lparr>pip_outcome = Exited 0 [] [], write_script_ok = True,
      script_outcome =
        Exited 1 [] (lit ''Traceback (most recent call last):'' @ [NL]
                       @ lit ''ValueError: boom'' @ [NL]),
      child_dirs = [], listing_ok = True,
      plot_dir_entries = [], exec_dir_entries = [script_entry, plots_entry],
      rmtree_ok = (\<lambda>p. True), upload_ok = (\<lambda>n. True)\<rparr>"

text \<open>A child that prints 102400 times the letter e with an acute accent (U+00E9).\<close>

definition env_accents :: env where
  "env_accents =
     \<lparr>pip_outcome = Exited 0 [] [], write_script_ok = True,
      script_outcome = Exited 0 (replicate 102400 233) [],
      child_dirs = [], listing_ok = True,
      plot_dir_entries = [], exec_dir_entries = [script_entry, plots_entry],
      rmtree_ok = (\<lambda>p. True), upload_ok = (\<lambda>n. True)\<rparr>"

text \<open>A child that shows one plot and prints a line around it.\<close>

definition env_plot :: env where
  "env_plot =
     \<lparr>pip_outcome = Exited 0 [] [], write_script_ok = True,
      script_outcome =
        Exited 0 (lit ''before'' @ [NL] @ lit ''[PLOT_SAVED]/tmp/x/plot_1.png'' @ [NL]
                    @ lit ''after'' @ [NL]) [],
      child_dirs = [], listing_ok = True,
      plot_dir_entries = [], exec_dir_entries = [script_entry, plots_entry, png_entry],
      rmtree_ok = (\<lambda>p. True), upload_ok = (\<lambda>n. True)\<rparr>"

text \<open>A workspace that holds a compiled module, a plot, a data file and an unreadable
  plot.\<close>

definition pyc_entry :: dir_entry where
  "pyc_entry = \<lparr>entry_name = lit ''cache.pyc'', entry_is_file = True,
                 entry_content = Some [1, 2, 3]\<rparr>"

definition csv_entry :: dir_entry where
  "csv_entry = \<lparr>entry_name = lit ''out.csv'', entry_is_file = True,
                 entry_content = Some [97]\<rparr>"

definition devnull_entry :: dir_entry where
  "devnull_entry = \<lparr>entry_name = lit ''link.png'', entry_is_file = False,
                     entry_content = Some []\<rparr>"

definition locked_entry :: dir_entry where
  "locked_entry = \<lparr>entry_name = lit ''locked.png'', entry_is_file = True,
                    entry_content = None\<rparr>"

definition env_files :: env where
  "env_files =
     \<lparr>pip_outcome = Exited 0 [] [], write_script_ok = True,
      script_outcome = Exited 0 [] [], child_dirs = [], listing_ok = True,
      plot_dir_entries = [locked_entry],
      exec_dir_entries =
        [script_entry, plots_entry, pyc_entry, png_entry, csv_entry, devnull_entry],
      rmtree_ok = (\<lambda>p. True), upload_ok = (\<lambda>n. True)\<rparr>"

text \<open>A request for the timeout 0.\<close>

definition rq0 :: ExecuteRequest where
  "rq0 = \<lparr>code = lit ''print(1)'', timeout = Some 0\<rparr>"

text \<open>The child of \<open>env_hello\<close> that also leaves a data file in the workspace.\<close>

definition env_outfile :: env where
  "env_outfile = env_hello\<lparr>exec_dir_entries := [script_entry, plots_entry, csv_entry]\<rparr>"

text \<open>A request for a package that pip cannot install.\<close>

definition env_pip_fail :: env where
  "env_pip_fail = env_hello\<lparr>pip_outcome := Exited 1 [] (lit ''ERROR: No matching distribution'')\<rparr>"

definition arq_dep :: AdvancedExecuteRequest where
  "arq_dep = \<lparr>adv_code = lit ''print(1)'', adv_timeout = Some 5,
               dependencies = [lit ''nonexistent-package-xyz''], output_files = []\<rparr>"

text \<open>A child that makes a subdirectory in its workspace, and the same request when
  \<open>shutil.rmtree\<close> fails.\<close>

definition env_subdir :: env where
  "env_subdir = env_hello\<lparr>child_dirs := [[lit ''out'']]\<rparr>"

definition env_rm_fail :: env where
  "env_rm_fail = env_subdir\<lparr>rmtree_ok := (\<lambda>p. False)\<rparr>"




section \<open>Evaluation on concrete inputs\<close>

lemmas run_defs = execute_code_def execute_advanced_def execute_with_files_def
  execute_python_code_def try_body_def install_dependencies_def
  run_script_def collect_artifacts_def cleanup_def rmtree_def mkdir_def emit_def
  initial_result_def build_response_def build_advanced_response_def effective_timeout_def
  py_or_def glob_png_def strip_plot_markers_def  extract_error_def
  index_minus2_def path_suffix_def lower_def lower_cp_def
  lit_def NL_def DOT_def MAX_OUTPUT_SIZE_def Let_def suffix_to_prefix

lemmas str_defs = str_int_def str_nat.simps b64_char_def b64_alphabet_def

lemmas sample_defs = st30_def w0_def script_entry_def plots_entry_def env_hello_def
  rq5_def arq5_def png_entry_def env_timeout_def rq1_def env_error_no_newline_def
  env_traceback_def env_accents_def env_plot_def pyc_entry_def csv_entry_def
  locked_entry_def devnull_entry_def rq0_def env_outfile_def env_pip_fail_def arq_dep_def
  env_subdir_def env_rm_fail_def is_png_image_def env_files_def is_output_file_def collected_plots_def collected_files_def

section \<open>Splitting and joining lines\<close>

lemma split_on_nonempty: "split_on c xs \<noteq> []"
  by (induction xs) (auto split: list.splits)

lemma split_on_lines_free: "l \<in> set (split_on c xs) \<Longrightarrow> c \<notin> set l"
proof (induction xs arbitrary: l)
  case Nil
  then show ?case by simp
next
  case (Cons x xs)
  obtain h t where ht: "split_on c xs = h # t"
    using split_on_nonempty [of c xs] by (cases "split_on c xs") auto
  show ?case
  proof (cases "x = c")
    case True
    with Cons show ?thesis by auto
  next
    case False
    with Cons.prems ht have "l = x # h \<or> l \<in> set t" by auto
    then show ?thesis using Cons.IH ht False by auto
  qed
qed

lemma split_on_free: "c \<notin> set l \<Longrightarrow> split_on c l = [l]"
  by (induction l) auto

lemma split_on_append: "c \<notin> set l \<Longrightarrow> split_on c (l @ c # rest) = l # split_on c rest"
  by (induction l) auto

lemma split_on_join:
  "ls \<noteq> [] \<Longrightarrow> (\<forall>l \<in> set ls. c \<notin> set l) \<Longrightarrow> split_on c (join [c] ls) = ls"
proof (induction ls rule: induct_list012)
  case 1
  then show ?case by simp
next
  case (2 l)
  then show ?case by (simp add: split_on_free)
next
  case (3 l m ls)
  then show ?case by (simp add: split_on_append)
qed

lemma collect_plots_eq:
  "collect_plots fs w r =
     (w\<lparr>trace := trace w @ map (\<lambda>f. Warn (PlotReadFailed (entry_name f)))
                              (filter (\<lambda>f. entry_content f = None) fs)\<rparr>,
      r\<lparr>plots := plots r @ map (\<lambda>bs. \<lparr>plot_format = lit ''png'', plot_data = b64encode bs\<rparr>)
                              (List.map_filter entry_content fs)\<rparr>)"
  by (induction fs arbitrary: w r) (auto simp: emit_def map_filter_simps split: option.splits)

lemma collect_files_eq:
  "collect_files fs w r =
     (w\<lparr>trace := trace w @ map (\<lambda>f. Warn (FileReadFailed (entry_name f)))
                              (filter (\<lambda>f. is_output_file f \<and> entry_content f = None) fs)\<rparr>,
      r\<lparr>files := files r @
           map (\<lambda>f. \<lparr>filename = entry_name f, file_data = b64encode (the (entry_content f)),
                      file_size = length (the (entry_content f))\<rparr>)
               (filter (\<lambda>f. is_output_file f \<and> entry_content f \<noteq> None) fs)\<rparr>)"
  by (induction fs arbitrary: w r) (auto simp: emit_def is_output_file_def split: option.splits)

lemma strip_lines:
  "split_on NL (strip_plot_markers s) =
     (if filter (\<lambda>l. \<not> prefix (lit ''[PLOT_SAVED]'') l) (split_on NL s) = [] then [[]]
      else filter (\<lambda>l. \<not> prefix (lit ''[PLOT_SAVED]'') l) (split_on NL s))"
proof (cases "s = []")
  case True
  then show ?thesis by (simp add: strip_plot_markers_def lit_def)
next
  case False
  show ?thesis
  proof (cases "filter (\<lambda>l. \<not> prefix (lit ''[PLOT_SAVED]'') l) (split_on NL s) = []")
    case True
    with False show ?thesis by (simp add: strip_plot_markers_def)
  next
    case ne: False
    have "\<forall>l \<in> set (filter (\<lambda>l. \<not> prefix (lit ''[PLOT_SAVED]'') l) (split_on NL s)). NL \<notin> set l"
      using split_on_lines_free by fastforce
    with ne False show ?thesis
      by (simp add: strip_plot_markers_def split_on_join)
  qed
qed

lemma strip_no_marker:
  "l \<in> set (split_on NL (strip_plot_markers s)) \<Longrightarrow> \<not> prefix (lit ''[PLOT_SAVED]'') l"
  by (auto simp: strip_lines lit_def split: if_splits)


section \<open>The stages of a request\<close>

lemma install_Continue:
  "install_dependencies e deps w r = (w1, Continue r1) \<Longrightarrow>
     (w1 = w \<and> r1 = r \<and> (deps = None \<or> deps = Some [])) \<or>
     (\<exists>ds out err. deps = Some ds \<and> ds \<noteq> [] \<and> pip_outcome e = Exited 0 out err \<and>
        w1 = emit (SpawnPip ds 60) w \<and> r1 = r\<lparr>install_output := out @ err\<rparr>)"
  by (auto simp: install_dependencies_def Let_def
        split: option.splits if_splits proc_outcome.splits)

lemma install_Return:
  "install_dependencies e deps w r = (w1, Return r1) \<Longrightarrow>
     \<exists>ds. deps = Some ds \<and> ds \<noteq> [] \<and> w1 = emit (SpawnPip ds 60) w \<and>
       ((\<exists>rc out err. pip_outcome e = Exited rc out err \<and> rc \<noteq> 0 \<and>
           r1 = r\<lparr>install_output := out @ err,
                    error := Some (lit ''Failed to install dependencies: '' @ out @ err)\<rparr>) \<or>
        (\<exists>out err. pip_outcome e = TimeoutExpired out err \<and>
           r1 = r\<lparr>error := Some (lit ''Dependency installation timed out'')\<rparr>))"
  by (auto simp: install_dependencies_def Let_def
        split: option.splits if_splits proc_outcome.splits)

lemma install_Raise:
  "install_dependencies e deps w r = (w1, Raise f) \<Longrightarrow>
     \<exists>ds. deps = Some ds \<and> ds \<noteq> [] \<and> w1 = emit (SpawnPip ds 60) w \<and> pip_outcome e = ProcFault"
  by (auto simp: install_dependencies_def Let_def
        split: option.splits if_splits proc_outcome.splits)

lemma run_world:
  "run_script e d t w r = (w2, fl) \<Longrightarrow>
     (\<not> write_script_ok e \<and> w2 = emit (WriteScript (d @ [lit ''script.py''])) w \<and> fl = Raise OSError) \<or>
     (write_script_ok e \<and> w2 = spawned e d t w)"
  by (auto simp: run_script_def spawned_def emit_def Let_def
        split: if_splits proc_outcome.splits sum.splits)

lemma run_not_Return: "run_script e d t w r \<noteq> (w2, Return r2)"
  by (auto simp: run_script_def Let_def split: if_splits proc_outcome.splits sum.splits)

lemma run_Continue:
  "run_script e d t w r = (w2, Continue r2) \<Longrightarrow>
     write_script_ok e \<and>
     ((\<exists>out err. script_outcome e = Exited 0 out err \<and>
        r2 = r\<lparr>stdout := take MAX_OUTPUT_SIZE out, stderr := take MAX_OUTPUT_SIZE err\<rparr>) \<or>
     (\<exists>rc out err m. script_outcome e = Exited rc out err \<and> rc \<noteq> 0 \<and>
        extract_error (take MAX_OUTPUT_SIZE err) = Inr m \<and>
        r2 = r\<lparr>stdout := take MAX_OUTPUT_SIZE out, stderr := take MAX_OUTPUT_SIZE err,
                 error := Some m\<rparr>) \<or>
     (\<exists>out err. script_outcome e = TimeoutExpired out err \<and>
        r2 = r\<lparr>error := Some (lit ''Execution timed out after '' @ str_int t @ lit '' seconds''),
                 stderr := lit ''TimeoutError: Code execution exceeded '' @ str_int t
                             @ lit '' second limit''\<rparr>))"
  by (auto simp: run_script_def Let_def split: if_splits proc_outcome.splits sum.splits)

lemma collect_not_Return: "collect_artifacts e w r \<noteq> (w', Return r')"
  by (auto simp: collect_artifacts_def Let_def collect_plots_eq collect_files_eq split: if_splits)

lemma collect_Continue:
  "collect_artifacts e w r = (w', Continue r') \<Longrightarrow>
     listing_ok e \<and>
     r' = r\<lparr>plots := plots r @
               map (\<lambda>bs. \<lparr>plot_format = lit ''png'', plot_data = b64encode bs\<rparr>)
                 (List.map_filter entry_content
                    (glob_png (plot_dir_entries e) @ glob_png (exec_dir_entries e))),
             stdout := strip_plot_markers (stdout r),
             files := files r @
               map (\<lambda>f. \<lparr>filename = entry_name f, file_data = b64encode (the (entry_content f)),
                          file_size = length (the (entry_content f))\<rparr>)
                 (filter (\<lambda>f. is_output_file f \<and> entry_content f \<noteq> None) (exec_dir_entries e))\<rparr>"
  by (auto simp: collect_artifacts_def Let_def collect_plots_eq collect_files_eq split: if_splits)

lemma collect_world:
  "collect_artifacts e w r = (w', fl) \<Longrightarrow>
     dirs w' = dirs w \<and> (\<exists>ws. trace w' = trace w @ map Warn ws)"
proof -
  assume a: "collect_artifacts e w r = (w', fl)"
  show ?thesis
  proof (cases "listing_ok e")
    case False
    with a have "w' = w" by (simp add: collect_artifacts_def)
    then show ?thesis by (simp add: exI [of _ "[]"])
  next
    case True
    let ?A = "map (\<lambda>f. PlotReadFailed (entry_name f))
               (filter (\<lambda>f. entry_content f = None)
                  (glob_png (plot_dir_entries e) @ glob_png (exec_dir_entries e)))"
    let ?B = "map (\<lambda>f. FileReadFailed (entry_name f))
               (filter (\<lambda>f. is_output_file f \<and> entry_content f = None) (exec_dir_entries e))"
    from a True have "dirs w' = dirs w \<and> trace w' = trace w @ map Warn (?A @ ?B)"
      by (auto simp: collect_artifacts_def Let_def collect_plots_eq collect_files_eq comp_def)
    then show ?thesis by blast
  qed
qed

lemma try_body_Return:
  "try_body e t d deps w r0 = (w', Return r) \<Longrightarrow>
     install_dependencies e deps w r0 = (w', Return r)"
  by (auto simp: try_body_def run_not_Return collect_not_Return
        split: prod.splits flow.splits)

lemma try_body_Continue:
  "try_body e t d deps w r0 = (w', Continue r) \<Longrightarrow>
     \<exists>w1 r1 w2 r2. install_dependencies e deps w r0 = (w1, Continue r1) \<and>
        run_script e d t w1 r1 = (w2, Continue r2) \<and>
        collect_artifacts e w2 r2 = (w', Continue r)"
  by (auto simp: try_body_def split: prod.splits flow.splits)

lemma epc_Inr:
  "snd (execute_python_code e i t wd deps w) = Inr r \<Longrightarrow>
     \<exists>w3. try_body e t (wd @ [i]) deps (mkdir (wd @ [i, lit ''plots'']) (mkdir (wd @ [i]) w))
             initial_result = (w3, Return r) \<or>
          try_body e t (wd @ [i]) deps (mkdir (wd @ [i, lit ''plots'']) (mkdir (wd @ [i]) w))
             initial_result = (w3, Continue r)"
  by (auto simp: execute_python_code_def Let_def split: prod.splits flow.splits)

lemma try_body_Return_shape:
  "try_body e t d deps w initial_result = (w', Return r) \<Longrightarrow>
     stdout r = [] \<and> stderr r = [] \<and> plots r = [] \<and> files r = [] \<and>
     (\<exists>ds. deps = Some ds \<and> ds \<noteq> [] \<and> w' = emit (SpawnPip ds 60) w \<and>
        ((\<exists>rc out err. pip_outcome e = Exited rc out err \<and> rc \<noteq> 0 \<and>
            install_output r = out @ err \<and>
            error r = Some (lit ''Failed to install dependencies: '' @ out @ err)) \<or>
         (\<exists>out err. pip_outcome e = TimeoutExpired out err \<and> install_output r = [] \<and>
            error r = Some (lit ''Dependency installation timed out''))))"
proof -
  assume "try_body e t d deps w initial_result = (w', Return r)"
  then have "install_dependencies e deps w initial_result = (w', Return r)"
    by (rule try_body_Return)
  from install_Return [OF this] show ?thesis
    by (auto simp: initial_result_def)
qed

lemma try_body_Continue_shape:
  "try_body e t d deps w initial_result = (w', Continue r) \<Longrightarrow>
     write_script_ok e \<and> listing_ok e \<and>
     plots r = collected_plots e \<and> files r = collected_files e \<and>
     ((install_output r = [] \<and> (deps = None \<or> deps = Some [])) \<or>
      (\<exists>ds out err. deps = Some ds \<and> ds \<noteq> [] \<and> pip_outcome e = Exited 0 out err \<and>
         install_output r = out @ err)) \<and>
     ((\<exists>out err. script_outcome e = Exited 0 out err \<and>
         stdout r = strip_plot_markers (take MAX_OUTPUT_SIZE out) \<and>
         stderr r = take MAX_OUTPUT_SIZE err \<and> error r = None) \<or>
      (\<exists>rc out err m. script_outcome e = Exited rc out err \<and> rc \<noteq> 0 \<and>
         extract_error (take MAX_OUTPUT_SIZE err) = Inr m \<and>
         stdout r = strip_plot_markers (take MAX_OUTPUT_SIZE out) \<and>
         stderr r = take MAX_OUTPUT_SIZE err \<and> error r = Some m) \<or>
      (\<exists>out err. script_outcome e = TimeoutExpired out err \<and>
         stdout r = [] \<and>
         stderr r = lit ''TimeoutError: Code execution exceeded '' @ str_int t
                      @ lit '' second limit'' \<and>
         error r = Some (lit ''Execution timed out after '' @ str_int t @ lit '' seconds'')))"
proof -
  assume "try_body e t d deps w initial_result = (w', Continue r)"
  from try_body_Continue [OF this] obtain w1 r1 w2 r2 where
    i: "install_dependencies e deps w initial_result = (w1, Continue r1)" and
    r: "run_script e d t w1 r1 = (w2, Continue r2)" and
    c: "collect_artifacts e w2 r2 = (w', Continue r)" by blast
  have r1: "stdout r1 = [] \<and> stderr r1 = [] \<and> error r1 = None \<and> plots r1 = [] \<and> files r1 = []"
    using install_Continue [OF i] by (auto simp: initial_result_def)
  have io: "(install_output r1 = [] \<and> (deps = None \<or> deps = Some [])) \<or>
      (\<exists>ds out err. deps = Some ds \<and> ds \<noteq> [] \<and> pip_outcome e = Exited 0 out err \<and>
         install_output r1 = out @ err)"
    using install_Continue [OF i] by (auto simp: initial_result_def)
  have r2: "write_script_ok e \<and> plots r2 = [] \<and> files r2 = [] \<and> install_output r2 = install_output r1 \<and>
     ((\<exists>out err. script_outcome e = Exited 0 out err \<and>
         stdout r2 = take MAX_OUTPUT_SIZE out \<and>
         stderr r2 = take MAX_OUTPUT_SIZE err \<and> error r2 = None) \<or>
      (\<exists>rc out err m. script_outcome e = Exited rc out err \<and> rc \<noteq> 0 \<and>
         extract_error (take MAX_OUTPUT_SIZE err) = Inr m \<and>
         stdout r2 = take MAX_OUTPUT_SIZE out \<and>
         stderr r2 = take MAX_OUTPUT_SIZE err \<and> error r2 = Some m) \<or>
      (\<exists>out err. script_outcome e = TimeoutExpired out err \<and>
         stdout r2 = [] \<and>
         stderr r2 = lit ''TimeoutError: Code execution exceeded '' @ str_int t
                      @ lit '' second limit'' \<and>
         error r2 = Some (lit ''Execution timed out after '' @ str_int t @ lit '' seconds'')))"
    using run_Continue [OF r] r1 by auto
  have r3: "listing_ok e \<and> plots r = plots r2 @ collected_plots e \<and>
      files r = files r2 @ collected_files e \<and> stdout r = strip_plot_markers (stdout r2) \<and>
      stderr r = stderr r2 \<and> error r = error r2 \<and> install_output r = install_output r2"
    using collect_Continue [OF c] by (simp add: collected_plots_def collected_files_def)
  have s0: "strip_plot_markers [] = []" by (simp add: strip_plot_markers_def)
  show ?thesis using io r2 r3 s0 by auto
qed

lemma epc_unfold:
  "execute_python_code e i t wd deps w =
     (cleanup e (wd @ [i])
        (fst (try_body e t (wd @ [i]) deps
                (mkdir (wd @ [i, lit ''plots'']) (mkdir (wd @ [i]) w)) initial_result)),
      case snd (try_body e t (wd @ [i]) deps
                  (mkdir (wd @ [i, lit ''plots'']) (mkdir (wd @ [i]) w)) initial_result) of
        Raise f \<Rightarrow> Inl f | Return r \<Rightarrow> Inr r | Continue r \<Rightarrow> Inr r)"
  by (simp add: execute_python_code_def Let_def split: prod.splits)

lemma epc_Inr_shape:
  assumes "snd (execute_python_code e i t wd deps w) = Inr r"
  shows "(\<exists>w2 w3. try_body e t (wd @ [i]) deps w2 initial_result = (w3, Return r)) \<or>
         (\<exists>w2 w3. try_body e t (wd @ [i]) deps w2 initial_result = (w3, Continue r))"
  using epc_Inr [OF assms] by blast

lemma install_skip:
  "deps = None \<or> deps = Some [] \<Longrightarrow> install_dependencies e deps w r = (w, Continue r)"
  by (auto simp: install_dependencies_def)


lemma install_nonzero:
  "ds \<noteq> [] \<Longrightarrow> pip_outcome e = Exited rc out err \<Longrightarrow> rc \<noteq> 0 \<Longrightarrow>
     install_dependencies e (Some ds) w r =
       (emit (SpawnPip ds 60) w,
        Return (r\<lparr>install_output := out @ err,
                  error := Some (lit ''Failed to install dependencies: '' @ out @ err)\<rparr>))"
  by (simp add: install_dependencies_def Let_def)

lemma install_timeout:
  "ds \<noteq> [] \<Longrightarrow> pip_outcome e = TimeoutExpired out err \<Longrightarrow>
     install_dependencies e (Some ds) w r =
       (emit (SpawnPip ds 60) w,
        Return (r\<lparr>error := Some (lit ''Dependency installation timed out'')\<rparr>))"
  by (simp add: install_dependencies_def Let_def)

lemma take_if_nonempty: "(if xs \<noteq> [] then take n xs else []) = take n xs"
  by simp


lemma run_exit0:
  "write_script_ok e \<Longrightarrow> script_outcome e = Exited 0 out err \<Longrightarrow>
     run_script e d t w r =
       (spawned e d t w,
        Continue (r\<lparr>stdout := take MAX_OUTPUT_SIZE out, stderr := take MAX_OUTPUT_SIZE err\<rparr>))"
  by (simp add: run_script_def spawned_def emit_def Let_def)

lemma run_exit_error:
  "write_script_ok e \<Longrightarrow> script_outcome e = Exited rc out err \<Longrightarrow> rc \<noteq> 0 \<Longrightarrow>
     extract_error (take MAX_OUTPUT_SIZE err) = Inr m \<Longrightarrow>
     run_script e d t w r =
       (spawned e d t w,
        Continue (r\<lparr>stdout := take MAX_OUTPUT_SIZE out, stderr := take MAX_OUTPUT_SIZE err,
                    error := Some m\<rparr>))"
  by (simp add: run_script_def spawned_def emit_def Let_def take_if_nonempty del: take_eq_Nil)

lemma run_exit_fault:
  "write_script_ok e \<Longrightarrow> script_outcome e = Exited rc out err \<Longrightarrow> rc \<noteq> 0 \<Longrightarrow>
     extract_error (take MAX_OUTPUT_SIZE err) = Inl f \<Longrightarrow>
     run_script e d t w r = (spawned e d t w, Raise f)"
  by (simp add: run_script_def spawned_def emit_def Let_def take_if_nonempty)

lemma collect_ok:
  "listing_ok e \<Longrightarrow>
     snd (collect_artifacts e w r) =
       Continue (r\<lparr>plots := plots r @ collected_plots e,
                   stdout := strip_plot_markers (stdout r),
                   files := files r @ collected_files e\<rparr>)"
  by (simp add: collect_artifacts_def Let_def collect_plots_eq collect_files_eq
        collected_plots_def collected_files_def)

lemma try_body_snd:
  "install_dependencies e deps w r0 = (w1, Continue r1) \<Longrightarrow>
   run_script e d t w1 r1 = (w2, Continue r2) \<Longrightarrow>
   snd (try_body e t d deps w r0) = snd (collect_artifacts e w2 r2)"
  by (simp add: try_body_def split: prod.splits flow.splits)

lemma try_body_install_Return:
  "install_dependencies e deps w r0 = (w1, Return r1) \<Longrightarrow>
   try_body e t d deps w r0 = (w1, Return r1)"
  by (simp add: try_body_def)

lemma try_body_run_Raise:
  "install_dependencies e deps w r0 = (w1, Continue r1) \<Longrightarrow>
   run_script e d t w1 r1 = (w2, Raise f) \<Longrightarrow>
   try_body e t d deps w r0 = (w2, Raise f)"
  by (simp add: try_body_def)


lemma epc_snd_Continue:
  "install_dependencies e deps (mkdir (wd @ [i, lit ''plots'']) (mkdir (wd @ [i]) w)) initial_result
     = (w1, Continue r1) \<Longrightarrow>
   run_script e (wd @ [i]) t w1 r1 = (w2, Continue r2) \<Longrightarrow> listing_ok e \<Longrightarrow>
   snd (execute_python_code e i t wd deps w) =
     Inr (r2\<lparr>plots := plots r2 @ collected_plots e,
             stdout := strip_plot_markers (stdout r2),
             files := files r2 @ collected_files e\<rparr>)"
  by (simp add: epc_unfold try_body_snd collect_ok)

lemma epc_stdout:
  assumes "snd (execute_python_code e i t d deps w) = Inr r"
  shows "stdout r = [] \<or>
     (\<exists>rc out err. script_outcome e = Exited rc out err \<and>
        stdout r = strip_plot_markers (take MAX_OUTPUT_SIZE out))"
  using epc_Inr_shape [OF assms]
proof
  assume "\<exists>w2 w3. try_body e t (d @ [i]) deps w2 initial_result = (w3, Return r)"
  then obtain w2 w3 where "try_body e t (d @ [i]) deps w2 initial_result = (w3, Return r)"
    by blast
  from try_body_Return_shape [OF this] show ?thesis by simp
next
  assume "\<exists>w2 w3. try_body e t (d @ [i]) deps w2 initial_result = (w3, Continue r)"
  then obtain w2 w3 where "try_body e t (d @ [i]) deps w2 initial_result = (w3, Continue r)"
    by blast
  from try_body_Continue_shape [OF this] show ?thesis by blast
qed

lemma execute_code_snd:
  "snd (execute_code st e i rq w) =
     map_sum id build_response
       (snd (execute_python_code e i (effective_timeout st (timeout rq)) (WORK_DIR st) None w))"
  by (simp add: execute_code_def Let_def split: prod.splits)

lemma execute_advanced_snd:
  "snd (execute_advanced st e i rq w) =
     map_sum id build_advanced_response
       (snd (execute_python_code e i (effective_timeout st (adv_timeout rq)) (WORK_DIR st)
          (Some (dependencies rq)) w))"
  by (simp add: execute_advanced_def Let_def split: prod.splits)


lemma marker_prefix_head: "prefix (lit ''[PLOT_SAVED]'') s \<Longrightarrow> 91 \<in> set s"
  by (auto simp: lit_def prefix_def)

lemma strip_plain: "NL \<notin> set s \<Longrightarrow> 91 \<notin> set s \<Longrightarrow> strip_plot_markers s = s"
  using marker_prefix_head [of s] by (auto simp: strip_plot_markers_def split_on_free)

lemma collect_snd:
  "snd (collect_artifacts e w r) =
     (if listing_ok e
      then Continue (r\<lparr>plots := plots r @ collected_plots e,
                       stdout := strip_plot_markers (stdout r),
                       files := files r @ collected_files e\<rparr>)
      else Raise OSError)"
  by (simp add: collect_ok) (simp add: collect_artifacts_def)

lemma try_body_files_irrelevant:
  assumes "glob_png es = glob_png (exec_dir_entries e)"
  shows "map_flow (\<lambda>r. r\<lparr>files := []\<rparr>) (snd (try_body (e\<lparr>exec_dir_entries := es\<rparr>) t d deps w r0)) =
         map_flow (\<lambda>r. r\<lparr>files := []\<rparr>) (snd (try_body e t d deps w r0))"
proof -
  let ?e = "e\<lparr>exec_dir_entries := es\<rparr>"
  have i: "install_dependencies ?e deps w r0 = install_dependencies e deps w r0"
    by (auto simp: install_dependencies_def Let_def split: option.splits proc_outcome.splits)
  have r: "\<And>w1 r1. run_script ?e d t w1 r1 = run_script e d t w1 r1"
    by (auto simp: run_script_def Let_def split: proc_outcome.splits sum.splits)
  have p: "collected_plots ?e = collected_plots e"
    using assms by (simp add: collected_plots_def)
  have c: "\<And>w2 r2. map_flow (\<lambda>r. r\<lparr>files := []\<rparr>) (snd (collect_artifacts ?e w2 r2)) =
      map_flow (\<lambda>r. r\<lparr>files := []\<rparr>) (snd (collect_artifacts e w2 r2))"
    by (simp add: collect_snd p)
  show ?thesis
    by (simp add: try_body_def i r c split: prod.splits flow.splits)
qed

lemma build_response_files: "build_response (r\<lparr>files := fs\<rparr>) = build_response r"
  by (simp add: build_response_def)

lemma epc_files_irrelevant:
  assumes "glob_png es = glob_png (exec_dir_entries e)"
  shows "map_sum id build_response
           (snd (execute_python_code (e\<lparr>exec_dir_entries := es\<rparr>) i t wd deps w)) =
         map_sum id build_response (snd (execute_python_code e i t wd deps w))"
proof -
  let ?w = "mkdir (wd @ [i, lit ''plots'']) (mkdir (wd @ [i]) w)"
  let ?A = "snd (try_body (e\<lparr>exec_dir_entries := es\<rparr>) t (wd @ [i]) deps ?w initial_result)"
  let ?B = "snd (try_body e t (wd @ [i]) deps ?w initial_result)"
  have eq: "map_flow (\<lambda>r. r\<lparr>files := []\<rparr>) ?A = map_flow (\<lambda>r. r\<lparr>files := []\<rparr>) ?B"
    by (rule try_body_files_irrelevant [OF assms])
  have k: "\<And>fl. map_sum id build_response
              (case fl of Raise f \<Rightarrow> Inl f | Return r \<Rightarrow> Inr r | Continue r \<Rightarrow> Inr r) =
            map_sum id build_response
              (case map_flow (\<lambda>r. r\<lparr>files := []\<rparr>) fl of
                 Raise f \<Rightarrow> Inl f | Return r \<Rightarrow> Inr r | Continue r \<Rightarrow> Inr r)"
    by (simp add: build_response_files split: flow.splits)
  show ?thesis
    by (simp only: epc_unfold snd_conv k [of ?A] k [of ?B] eq)
qed

lemma save_uploads_entries:
  "save_uploads (e\<lparr>exec_dir_entries := es\<rparr>) d ups w = save_uploads e d ups w"
  by (induction ups arbitrary: w) auto

lemma execute_with_files_snd:
  "snd (execute_with_files st e i j c ups t w) =
     (case save_uploads e (WORK_DIR st @ [i]) ups (mkdir (WORK_DIR st @ [i]) w) of
        (w', False) \<Rightarrow> Inl OSError
      | (w', True) \<Rightarrow>
          map_sum id build_response
            (snd (execute_python_code e j (min t (EXECUTION_TIMEOUT st)) (WORK_DIR st @ [i])
                    None w')))"
  by (simp add: execute_with_files_def Let_def split: prod.splits bool.splits)

section \<open>Effects on the world\<close>

lemma emit_trace: "trace (emit ev w) = trace w @ [ev]" and emit_dirs: "dirs (emit ev w) = dirs w"
  by (simp_all add: emit_def)

lemma mkdir_trace: "trace (mkdir d w) = trace w @ [Mkdir d]"
  and mkdir_dirs: "dirs (mkdir d w) = List.insert d (dirs w)"
  by (simp_all add: mkdir_def emit_def)

lemma spawned_trace:
  "trace (spawned e d t w) =
     trace w @ [WriteScript (d @ [lit ''script.py'']), SpawnScript (d @ [lit ''script.py'']) t]"
  and spawned_dirs: "dirs (spawned e d t w) = dirs w @ map (\<lambda>p. d @ p) (child_dirs e)"
  by (simp_all add: spawned_def emit_def)

lemma cleanup_trace:
  "trace (cleanup e d w) =
     trace w @ Rmtree d # (if rmtree_ok e d then [] else [Warn (CleanupFailed d)])"
  and cleanup_dirs:
  "dirs (cleanup e d w) = (if rmtree_ok e d then filter (\<lambda>p. \<not> prefix d p) (dirs w) else dirs w)"
  by (simp_all add: cleanup_def rmtree_def emit_def)

lemma install_world:
  "install_dependencies e deps w r = (w1, fl) \<Longrightarrow>
     (w1 = w \<and> (\<exists>r'. fl = Continue r')) \<or>
     (\<exists>ds. deps = Some ds \<and> ds \<noteq> [] \<and> w1 = emit (SpawnPip ds 60) w)"
  by (auto simp: install_dependencies_def Let_def
        split: option.splits if_splits proc_outcome.splits)

lemma collect_world_warn:
  "collect_artifacts e w r = (w', fl) \<Longrightarrow>
     dirs w' = dirs w \<and>
     (\<exists>ws. trace w' = trace w @ map Warn ws \<and> (\<forall>x \<in> set ws. \<forall>D. x \<noteq> CleanupFailed D))"
proof -
  assume a: "collect_artifacts e w r = (w', fl)"
  show ?thesis
  proof (cases "listing_ok e")
    case False
    with a have "w' = w" by (simp add: collect_artifacts_def)
    then have "dirs w' = dirs w \<and> trace w' = trace w @ map Warn [] \<and>
        (\<forall>x \<in> set ([] :: warning list). \<forall>D. x \<noteq> CleanupFailed D)" by simp
    then show ?thesis by blast
  next
    case True
    let ?A = "map (\<lambda>f. PlotReadFailed (entry_name f))
               (filter (\<lambda>f. entry_content f = None)
                  (glob_png (plot_dir_entries e) @ glob_png (exec_dir_entries e)))"
    let ?B = "map (\<lambda>f. FileReadFailed (entry_name f))
               (filter (\<lambda>f. is_output_file f \<and> entry_content f = None) (exec_dir_entries e))"
    from a True have "dirs w' = dirs w \<and> trace w' = trace w @ map Warn (?A @ ?B)"
      by (auto simp: collect_artifacts_def Let_def collect_plots_eq collect_files_eq comp_def)
    moreover have "\<forall>x \<in> set (?A @ ?B). \<forall>D. x \<noteq> CleanupFailed D" by auto
    ultimately show ?thesis by blast
  qed
qed

lemma try_body_cases:
  "try_body e t d deps w r0 = (w', fl) \<Longrightarrow>
     (install_dependencies e deps w r0 = (w', fl) \<and> (\<forall>r. fl \<noteq> Continue r)) \<or>
     (\<exists>w1 r1. install_dependencies e deps w r0 = (w1, Continue r1) \<and>
        ((run_script e d t w1 r1 = (w', fl) \<and> (\<forall>r. fl \<noteq> Continue r)) \<or>
         (\<exists>w2 r2. run_script e d t w1 r1 = (w2, Continue r2) \<and>
            collect_artifacts e w2 r2 = (w', fl))))"
  by (auto simp: try_body_def split: prod.splits flow.splits)

text \<open>What the try block adds to the trace and to the directories.\<close>

lemma try_body_world:
  assumes "try_body e t d deps w r0 = (w', fl)"
  shows "\<exists>pip run ws.
     trace w' = trace w @ pip @ run @ map Warn ws \<and>
     (pip = [] \<or> (\<exists>ds. deps = Some ds \<and> ds \<noteq> [] \<and> pip = [SpawnPip ds 60])) \<and>
     (run = [] \<or> run = [WriteScript (d @ [lit ''script.py''])] \<or>
      run = [WriteScript (d @ [lit ''script.py'']), SpawnScript (d @ [lit ''script.py'']) t]) \<and>
     (\<forall>x \<in> set ws. \<forall>D. x \<noteq> CleanupFailed D) \<and>
     (dirs w' = dirs w \<or> dirs w' = dirs w @ map (\<lambda>p. d @ p) (child_dirs e))"
proof -
  let ?s = "d @ [lit ''script.py'']"
  let ?R = "\<lambda>pip run ws.
     trace w' = trace w @ pip @ run @ map Warn ws \<and>
     (pip = [] \<or> (\<exists>ds. deps = Some ds \<and> ds \<noteq> [] \<and> pip = [SpawnPip ds 60])) \<and>
     (run = [] \<or> run = [WriteScript ?s] \<or> run = [WriteScript ?s, SpawnScript ?s t]) \<and>
     (\<forall>x \<in> set ws. \<forall>D. x \<noteq> CleanupFailed D) \<and>
     (dirs w' = dirs w \<or> dirs w' = dirs w @ map (\<lambda>p. d @ p) (child_dirs e))"
  from try_body_cases [OF assms] show ?thesis
  proof (elim disjE conjE exE)
    assume i: "install_dependencies e deps w r0 = (w', fl)"
    from install_world [OF i] obtain pip where
      "trace w' = trace w @ pip" "dirs w' = dirs w"
      "pip = [] \<or> (\<exists>ds. deps = Some ds \<and> ds \<noteq> [] \<and> pip = [SpawnPip ds 60])"
      by (auto simp: emit_def)
    then have "?R pip [] []" by simp
    then show ?thesis by blast
  next
    fix w1 r1
    assume i: "install_dependencies e deps w r0 = (w1, Continue r1)"
      and r: "run_script e d t w1 r1 = (w', fl)"
    from install_world [OF i] obtain pip where p:
      "trace w1 = trace w @ pip" "dirs w1 = dirs w"
      "pip = [] \<or> (\<exists>ds. deps = Some ds \<and> ds \<noteq> [] \<and> pip = [SpawnPip ds 60])"
      by (auto simp: emit_def)
    from run_world [OF r] obtain run where q:
      "trace w' = trace w1 @ run"
      "run = [WriteScript ?s] \<or> run = [WriteScript ?s, SpawnScript ?s t]"
      "dirs w' = dirs w1 \<or> dirs w' = dirs w1 @ map (\<lambda>p. d @ p) (child_dirs e)"
      by (auto simp: emit_def spawned_trace spawned_dirs)
    from p q have "?R pip run []" by simp
    then show ?thesis by blast
  next
    fix w1 r1 w2 r2
    assume i: "install_dependencies e deps w r0 = (w1, Continue r1)"
      and r: "run_script e d t w1 r1 = (w2, Continue r2)"
      and c: "collect_artifacts e w2 r2 = (w', fl)"
    from install_world [OF i] obtain pip where p:
      "trace w1 = trace w @ pip" "dirs w1 = dirs w"
      "pip = [] \<or> (\<exists>ds. deps = Some ds \<and> ds \<noteq> [] \<and> pip = [SpawnPip ds 60])"
      by (auto simp: emit_def)
    from run_world [OF r] obtain run where q:
      "trace w2 = trace w1 @ run"
      "run = [WriteScript ?s] \<or> run = [WriteScript ?s, SpawnScript ?s t]"
      "dirs w2 = dirs w1 \<or> dirs w2 = dirs w1 @ map (\<lambda>p. d @ p) (child_dirs e)"
      by (auto simp: emit_def spawned_trace spawned_dirs)
    from collect_world_warn [OF c] obtain ws where s:
      "dirs w' = dirs w2" "trace w' = trace w2 @ map Warn ws"
      "\<forall>x \<in> set ws. \<forall>D. x \<noteq> CleanupFailed D" by blast
    from p q s have "?R pip run ws" by simp
    then show ?thesis by blast
  qed
qed

lemma filter_under_insert:
  "prefix d x \<Longrightarrow> filter (\<lambda>p. \<not> prefix d p) (List.insert x xs) = filter (\<lambda>p. \<not> prefix d p) xs"
  by (simp add: List.insert_def)

lemma filter_under_children:
  "filter (\<lambda>p. \<not> prefix d p) (xs @ map (\<lambda>p. d @ p) cs) = filter (\<lambda>p. \<not> prefix d p) xs"
  by (induction cs) (simp_all add: filter_empty_conv)

text \<open>What one call of \<open>execute_python_code\<close> does to the world.\<close>

lemma epc_world:
  "\<exists>pip run ws.
     trace (fst (execute_python_code e i t wd deps w)) =
       trace w @ [Mkdir (wd @ [i]), Mkdir (wd @ [i, lit ''plots''])] @ pip @ run @ map Warn ws @
       Rmtree (wd @ [i]) #
       (if rmtree_ok e (wd @ [i]) then [] else [Warn (CleanupFailed (wd @ [i]))]) \<and>
     (pip = [] \<or> (\<exists>ds. deps = Some ds \<and> ds \<noteq> [] \<and> pip = [SpawnPip ds 60])) \<and>
     (run = [] \<or> run = [WriteScript (wd @ [i, lit ''script.py''])] \<or>
      run = [WriteScript (wd @ [i, lit ''script.py'']),
             SpawnScript (wd @ [i, lit ''script.py'']) t]) \<and>
     (\<forall>x \<in> set ws. \<forall>D. x \<noteq> CleanupFailed D) \<and>
     (rmtree_ok e (wd @ [i]) \<longrightarrow>
        dirs (fst (execute_python_code e i t wd deps w)) =
          filter (\<lambda>p. \<not> prefix (wd @ [i]) p) (dirs w)) \<and>
     (\<not> rmtree_ok e (wd @ [i]) \<longrightarrow>
        set (dirs w) \<union> {wd @ [i], wd @ [i, lit ''plots'']}
          \<subseteq> set (dirs (fst (execute_python_code e i t wd deps w))))"
proof -
  let ?d = "wd @ [i]"
  let ?w2 = "mkdir (wd @ [i, lit ''plots'']) (mkdir ?d w)"
  obtain w3 fl where tb: "try_body e t ?d deps ?w2 initial_result = (w3, fl)"
    by (cases "try_body e t ?d deps ?w2 initial_result") auto
  from try_body_world [OF tb] obtain pip run ws where
    tr: "trace w3 = trace ?w2 @ pip @ run @ map Warn ws"
    and pp: "pip = [] \<or> (\<exists>ds. deps = Some ds \<and> ds \<noteq> [] \<and> pip = [SpawnPip ds 60])"
    and rr: "run = [] \<or> run = [WriteScript (?d @ [lit ''script.py''])] \<or>
      run = [WriteScript (?d @ [lit ''script.py'']), SpawnScript (?d @ [lit ''script.py'']) t]"
    and ww: "\<forall>x \<in> set ws. \<forall>D. x \<noteq> CleanupFailed D"
    and dd: "dirs w3 = dirs ?w2 \<or> dirs w3 = dirs ?w2 @ map (\<lambda>p. ?d @ p) (child_dirs e)"
    by blast
  have fst_eq: "fst (execute_python_code e i t wd deps w) = cleanup e ?d w3"
    by (simp add: epc_unfold tb)
  have t1: "trace (cleanup e ?d w3) =
       trace w @ [Mkdir ?d, Mkdir (wd @ [i, lit ''plots''])] @ pip @ run @ map Warn ws @
       Rmtree ?d # (if rmtree_ok e ?d then [] else [Warn (CleanupFailed ?d)])"
    by (simp add: cleanup_trace tr mkdir_trace)
  have f2: "filter (\<lambda>p. \<not> prefix ?d p) (dirs ?w2) = filter (\<lambda>p. \<not> prefix ?d p) (dirs w)"
    by (simp add: mkdir_dirs filter_under_insert)
  have d1: "rmtree_ok e ?d \<longrightarrow> dirs (cleanup e ?d w3) = filter (\<lambda>p. \<not> prefix ?d p) (dirs w)"
    using dd f2 by (auto simp: cleanup_dirs filter_under_children)
  have d2: "\<not> rmtree_ok e ?d \<longrightarrow>
      set (dirs w) \<union> {?d, wd @ [i, lit ''plots'']} \<subseteq> set (dirs (cleanup e ?d w3))"
    using dd by (auto simp: cleanup_dirs mkdir_dirs)
  from t1 pp rr ww d1 d2 show ?thesis
    unfolding fst_eq by (intro exI [of _ pip] exI [of _ run] exI [of _ ws]) simp
qed

lemma execute_code_fst:
  "fst (execute_code st e i rq w) =
     fst (execute_python_code e i (effective_timeout st (timeout rq)) (WORK_DIR st) None w)"
  by (simp add: execute_code_def Let_def split: prod.splits)

lemma execute_advanced_fst:
  "fst (execute_advanced st e i rq w) =
     fst (execute_python_code e i (effective_timeout st (adv_timeout rq)) (WORK_DIR st)
            (Some (dependencies rq)) w)"
  by (simp add: execute_advanced_def Let_def split: prod.splits)

lemma epc_Return:
  "install_dependencies e deps (mkdir (wd @ [i, lit ''plots'']) (mkdir (wd @ [i]) w))
     initial_result = (w1, Return r1) \<Longrightarrow>
   execute_python_code e i t wd deps w = (cleanup e (wd @ [i]) w1, Inr r1)"
  by (simp add: epc_unfold try_body_install_Return)

lemma epc_no_pip:
  assumes "deps = None \<or> deps = Some []"
  shows "\<exists>evs. trace (fst (execute_python_code e i t wd deps w)) = trace w @ evs \<and>
           (\<forall>ds tm. SpawnPip ds tm \<notin> set evs)"
proof -
  from epc_world [of e i t wd deps w] obtain pip run ws where
    tr: "trace (fst (execute_python_code e i t wd deps w)) =
       trace w @ [Mkdir (wd @ [i]), Mkdir (wd @ [i, lit ''plots''])] @ pip @ run @ map Warn ws @
       Rmtree (wd @ [i]) #
       (if rmtree_ok e (wd @ [i]) then [] else [Warn (CleanupFailed (wd @ [i]))])"
    and pp: "pip = [] \<or> (\<exists>ds. deps = Some ds \<and> ds \<noteq> [] \<and> pip = [SpawnPip ds 60])"
    and rr: "run = [] \<or> run = [WriteScript (wd @ [i, lit ''script.py''])] \<or>
      run = [WriteScript (wd @ [i, lit ''script.py'']),
             SpawnScript (wd @ [i, lit ''script.py'']) t]"
    by blast
  from pp assms have p0: "pip = []" by auto
  let ?evs = "[Mkdir (wd @ [i]), Mkdir (wd @ [i, lit ''plots''])] @ run @ map Warn ws @
       Rmtree (wd @ [i]) #
       (if rmtree_ok e (wd @ [i]) then [] else [Warn (CleanupFailed (wd @ [i]))])"
  have "trace (fst (execute_python_code e i t wd deps w)) = trace w @ ?evs"
    using tr p0 by simp
  moreover have "\<forall>ds tm. SpawnPip ds tm \<notin> set ?evs"
    using rr by auto
  ultimately show ?thesis by blast
qed

lemma adv_install_failure:
  assumes ne: "dependencies arq \<noteq> []"
    and i: "install_dependencies e (Some (dependencies arq))
              (mkdir (WORK_DIR st @ [i, lit ''plots'']) (mkdir (WORK_DIR st @ [i]) w))
              initial_result =
            (emit (SpawnPip (dependencies arq) 60)
               (mkdir (WORK_DIR st @ [i, lit ''plots'']) (mkdir (WORK_DIR st @ [i]) w)),
             Return r1)"
  shows "snd (execute_advanced st e i arq w) = Inr (build_advanced_response r1) \<and>
     trace (fst (execute_advanced st e i arq w)) =
       trace w @ [Mkdir (WORK_DIR st @ [i]), Mkdir (WORK_DIR st @ [i, lit ''plots'']),
                  SpawnPip (dependencies arq) 60, Rmtree (WORK_DIR st @ [i])] @
       (if rmtree_ok e (WORK_DIR st @ [i]) then []
        else [Warn (CleanupFailed (WORK_DIR st @ [i]))])"
  by (simp add: execute_advanced_snd execute_advanced_fst epc_Return [OF i]
        cleanup_trace emit_trace mkdir_trace)





















section \<open>The effective timeout\<close>

text \<open>
  C4 on a request for the timeout 0 with the ceiling 30: the execute endpoint computes
  \<open>min(request.timeout or EXECUTION_TIMEOUT, EXECUTION_TIMEOUT)\<close>, the 0 is false for
  \<open>or\<close>, and the child is started with the timeout 30 instead of \<open>min(0, 30) = 0\<close>. The
  execute-with-files endpoint computes \<open>min(timeout, EXECUTION_TIMEOUT)\<close> and starts the
  child with the timeout 0.
\<close>

theorem timeout_zero_runs_with_ceiling:
  "timeout rq0 = Some 0 \<and> EXECUTION_TIMEOUT st30 = 30 \<and> min (0::int) 30 = 0 \<and>
   trace (fst (execute_code st30 env_hello (lit ''a1b2c3d4'') rq0 w0)) =
     [Mkdir [lit ''tmp'', lit ''code-executor'', lit ''a1b2c3d4''],
      Mkdir [lit ''tmp'', lit ''code-executor'', lit ''a1b2c3d4'', lit ''plots''],
      WriteScript [lit ''tmp'', lit ''code-executor'', lit ''a1b2c3d4'', lit ''script.py''],
      SpawnScript [lit ''tmp'', lit ''code-executor'', lit ''a1b2c3d4'', lit ''script.py''] 30,
      Rmtree [lit ''tmp'', lit ''code-executor'', lit ''a1b2c3d4'']] \<and>
   trace (fst (execute_with_files st30 env_hello (lit ''a1b2c3d4'') (lit ''e5f6a7b8'')
                 (lit ''print(1)'') [(lit ''in.csv'', [1, 2])] 0 w0)) =
     [Mkdir [lit ''tmp'', lit ''code-executor'', lit ''a1b2c3d4''],
      WriteUpload [lit ''tmp'', lit ''code-executor'', lit ''a1b2c3d4'', lit ''in.csv''],
      Mkdir [lit ''tmp'', lit ''code-executor'', lit ''a1b2c3d4'', lit ''e5f6a7b8''],
      Mkdir [lit ''tmp'', lit ''code-executor'', lit ''a1b2c3d4'', lit ''e5f6a7b8'', lit ''plots''],
      WriteScript [lit ''tmp'', lit ''code-executor'', lit ''a1b2c3d4'', lit ''e5f6a7b8'',
                   lit ''script.py''],
      SpawnScript [lit ''tmp'', lit ''code-executor'', lit ''a1b2c3d4'', lit ''e5f6a7b8'',
                   lit ''script.py''] 0,
      Rmtree [lit ''tmp'', lit ''code-executor'', lit ''a1b2c3d4'', lit ''e5f6a7b8''],
      Rmtree [lit ''tmp'', lit ''code-executor'', lit ''a1b2c3d4'']]"
  by (simp add: run_defs sample_defs)

section \<open>The success flag\<close>

text \<open>
  C2: every response returned by the execute, execute-advanced and execute-with-files
  endpoints has its success flag true if and only if its error field is null.
\<close>

theorem success_iff_error_none:
  "(snd (execute_code st e i rq w) = Inr resp \<longrightarrow>
      (success resp \<longleftrightarrow> resp_error resp = None)) \<and>
   (snd (execute_advanced st e i arq w) = Inr aresp \<longrightarrow>
      (adv_success aresp \<longleftrightarrow> adv_error aresp = None)) \<and>
   (snd (execute_with_files st e i j c ups t w) = Inr fresp \<longrightarrow>
      (success fresp \<longleftrightarrow> resp_error fresp = None))"
  by (auto simp: execute_code_def execute_advanced_def execute_with_files_def
        build_response_def build_advanced_response_def Let_def map_sum_def
        split: prod.splits sum.splits bool.splits)

theorem success_iff_error_none_witness:
  "snd (execute_code st30 env_hello (lit ''a1b2c3d4'') rq5 w0)
     = Inr \<lparr>success = True, resp_stdout = lit ''hello'' @ [NL], resp_stderr = [],
             resp_error = None, resp_plots = []\<rparr> \<and>
   snd (execute_advanced st30 env_hello (lit ''a1b2c3d4'') arq5 w0)
     = Inr \<lparr>adv_success = True, adv_stdout = lit ''hello'' @ [NL], adv_stderr = [],
             adv_error = None, adv_plots = [], adv_files = [], adv_install_output = []\<rparr> \<and>
   snd (execute_with_files st30 env_hello (lit ''a1b2c3d4'') (lit ''e5f6a7b8'') (lit ''print(1)'')
          [(lit ''in.csv'', [1, 2])] 5 w0)
     = Inr \<lparr>success = True, resp_stdout = lit ''hello'' @ [NL], resp_stderr = [],
             resp_error = None, resp_plots = []\<rparr>"
  using success_iff_error_none [of st30 env_hello "lit ''a1b2c3d4''" rq5 w0
      "\<lparr>success = True, resp_stdout = lit ''hello'' @ [NL], resp_stderr = [],
        resp_error = None, resp_plots = []\<rparr>"]
  by (simp add: run_defs sample_defs)

section \<open>Timeouts\<close>




section \<open>Plot markers\<close>

text \<open>
  C7: no line of the returned stdout begins with \<open>[PLOT_SAVED]\<close>. When the child was run and
  exited, the returned stdout is the captured stdout, cut to \<open>MAX_OUTPUT_SIZE\<close>, split
  into lines, without the lines that begin with the marker, joined again: the other lines
  are all there, in their order. When the child was killed at the deadline or the
  dependency stage ended the request, there is no captured stdout and the returned
  stdout is empty.
\<close>

theorem plot_markers_removed:
  assumes "snd (execute_python_code e i t d deps w) = Inr r"
  shows "(\<forall>l \<in> set (split_on NL (stdout r)). \<not> prefix (lit ''[PLOT_SAVED]'') l) \<and>
     (\<forall>rc out err.
        script_outcome e = Exited rc out err \<and>
        (deps = None \<or> deps = Some [] \<or> (\<exists>o1 o2. pip_outcome e = Exited 0 o1 o2)) \<longrightarrow>
        stdout r =
          join [NL] (filter (\<lambda>l. \<not> prefix (lit ''[PLOT_SAVED]'') l)
                       (split_on NL (take MAX_OUTPUT_SIZE out))) \<and>
        split_on NL (stdout r) =
          (if filter (\<lambda>l. \<not> prefix (lit ''[PLOT_SAVED]'') l)
                (split_on NL (take MAX_OUTPUT_SIZE out)) = []
           then [[]]
           else filter (\<lambda>l. \<not> prefix (lit ''[PLOT_SAVED]'') l)
                  (split_on NL (take MAX_OUTPUT_SIZE out)))) \<and>
     ((\<exists>out err. script_outcome e = TimeoutExpired out err) \<or>
      \<not> (deps = None \<or> deps = Some [] \<or> (\<exists>o1 o2. pip_outcome e = Exited 0 o1 o2)) \<longrightarrow>
        stdout r = [])"
proof -
  have nm: "\<forall>l \<in> set (split_on NL (stdout r)). \<not> prefix (lit ''[PLOT_SAVED]'') l"
    using epc_stdout [OF assms] strip_no_marker by (auto simp: lit_def)
  have sj: "\<And>s. strip_plot_markers s =
      join [NL] (filter (\<lambda>l. \<not> prefix (lit ''[PLOT_SAVED]'') l) (split_on NL s))"
    by (simp add: strip_plot_markers_def lit_def)
  from epc_Inr_shape [OF assms] show ?thesis
  proof
    assume "\<exists>w2 w3. try_body e t (d @ [i]) deps w2 initial_result = (w3, Return r)"
    then obtain w2 w3 where "try_body e t (d @ [i]) deps w2 initial_result = (w3, Return r)"
      by blast
    from try_body_Return_shape [OF this] nm show ?thesis by auto
  next
    assume "\<exists>w2 w3. try_body e t (d @ [i]) deps w2 initial_result = (w3, Continue r)"
    then obtain w2 w3 where "try_body e t (d @ [i]) deps w2 initial_result = (w3, Continue r)"
      by blast
    from try_body_Continue_shape [OF this]
    have ip: "deps = None \<or> deps = Some [] \<or> (\<exists>o1 o2. pip_outcome e = Exited 0 o1 o2)"
      and rs: "(\<exists>rc out err. script_outcome e = Exited rc out err \<and>
                 stdout r = strip_plot_markers (take MAX_OUTPUT_SIZE out)) \<or>
               (\<exists>out err. script_outcome e = TimeoutExpired out err \<and> stdout r = [])"
      by blast+
    from rs show ?thesis
    proof
      assume "\<exists>rc out err. script_outcome e = Exited rc out err \<and>
                 stdout r = strip_plot_markers (take MAX_OUTPUT_SIZE out)"
      then obtain rc out err where so: "script_outcome e = Exited rc out err"
        and st: "stdout r = strip_plot_markers (take MAX_OUTPUT_SIZE out)" by blast
      have A: "stdout r = join [NL] (filter (\<lambda>l. \<not> prefix (lit ''[PLOT_SAVED]'') l)
                       (split_on NL (take MAX_OUTPUT_SIZE out)))"
        using st sj by simp
      have B: "split_on NL (stdout r) =
          (if filter (\<lambda>l. \<not> prefix (lit ''[PLOT_SAVED]'') l)
                (split_on NL (take MAX_OUTPUT_SIZE out)) = []
           then [[]]
           else filter (\<lambda>l. \<not> prefix (lit ''[PLOT_SAVED]'') l)
                  (split_on NL (take MAX_OUTPUT_SIZE out)))"
        using st by (simp only: strip_lines)
      have c2: "\<forall>rc out err.
        script_outcome e = Exited rc out err \<and>
        (deps = None \<or> deps = Some [] \<or> (\<exists>o1 o2. pip_outcome e = Exited 0 o1 o2)) \<longrightarrow>
        stdout r =
          join [NL] (filter (\<lambda>l. \<not> prefix (lit ''[PLOT_SAVED]'') l)
                       (split_on NL (take MAX_OUTPUT_SIZE out))) \<and>
        split_on NL (stdout r) =
          (if filter (\<lambda>l. \<not> prefix (lit ''[PLOT_SAVED]'') l)
                (split_on NL (take MAX_OUTPUT_SIZE out)) = []
           then [[]]
           else filter (\<lambda>l. \<not> prefix (lit ''[PLOT_SAVED]'') l)
                  (split_on NL (take MAX_OUTPUT_SIZE out)))"
      proof (intro allI impI)
        fix rc' out' err'
        assume "script_outcome e = Exited rc' out' err' \<and>
          (deps = None \<or> deps = Some [] \<or> (\<exists>o1 o2. pip_outcome e = Exited 0 o1 o2))"
        with so have eq: "out' = out" by simp
        show "stdout r =
          join [NL] (filter (\<lambda>l. \<not> prefix (lit ''[PLOT_SAVED]'') l)
                       (split_on NL (take MAX_OUTPUT_SIZE out'))) \<and>
          split_on NL (stdout r) =
          (if filter (\<lambda>l. \<not> prefix (lit ''[PLOT_SAVED]'') l)
                (split_on NL (take MAX_OUTPUT_SIZE out')) = []
           then [[]]
           else filter (\<lambda>l. \<not> prefix (lit ''[PLOT_SAVED]'') l)
                  (split_on NL (take MAX_OUTPUT_SIZE out')))"
          unfolding eq by (rule conjI [OF A B])
      qed
      have c3: "(\<exists>out err. script_outcome e = TimeoutExpired out err) \<or>
          \<not> (deps = None \<or> deps = Some [] \<or> (\<exists>o1 o2. pip_outcome e = Exited 0 o1 o2)) \<longrightarrow>
          stdout r = []"
        using so ip by auto
      show ?thesis by (rule conjI [OF nm conjI [OF c2 c3]])
    next
      assume "\<exists>out err. script_outcome e = TimeoutExpired out err \<and> stdout r = []"
      then obtain out err where tmo: "script_outcome e = TimeoutExpired out err"
        and st0: "stdout r = []" by blast
      have c2: "\<forall>rc out err.
        script_outcome e = Exited rc out err \<and>
        (deps = None \<or> deps = Some [] \<or> (\<exists>o1 o2. pip_outcome e = Exited 0 o1 o2)) \<longrightarrow>
        stdout r =
          join [NL] (filter (\<lambda>l. \<not> prefix (lit ''[PLOT_SAVED]'') l)
                       (split_on NL (take MAX_OUTPUT_SIZE out))) \<and>
        split_on NL (stdout r) =
          (if filter (\<lambda>l. \<not> prefix (lit ''[PLOT_SAVED]'') l)
                (split_on NL (take MAX_OUTPUT_SIZE out)) = []
           then [[]]
           else filter (\<lambda>l. \<not> prefix (lit ''[PLOT_SAVED]'') l)
                  (split_on NL (take MAX_OUTPUT_SIZE out)))"
        by (simp add: tmo)
      have c3: "(\<exists>out err. script_outcome e = TimeoutExpired out err) \<or>
          \<not> (deps = None \<or> deps = Some [] \<or> (\<exists>o1 o2. pip_outcome e = Exited 0 o1 o2)) \<longrightarrow>
          stdout r = []"
        by (simp add: st0)
      show ?thesis by (rule conjI [OF nm conjI [OF c2 c3]])
    qed
  qed
qed

theorem plot_markers_removed_witness:
  "script_outcome env_plot =
     Exited 0 (lit ''before'' @ [NL] @ lit ''[PLOT_SAVED]/tmp/x/plot_1.png'' @ [NL]
                 @ lit ''after'' @ [NL]) [] \<and>
   snd (execute_python_code env_plot (lit ''a1b2c3d4'') 5 (WORK_DIR st30) None w0) =
     Inr \<lparr>stdout = lit ''before'' @ [NL] @ lit ''after'' @ [NL], stderr = [], error = None,
           plots = [\<lparr>plot_format = lit ''png'', plot_data = lit ''iVBORw==''\<rparr>],
           files = [], install_output = []\<rparr> \<and>
   split_on NL (lit ''before'' @ [NL] @ lit ''after'' @ [NL]) = [lit ''before'', lit ''after'', []]"
  using plot_markers_removed [of env_plot "lit ''a1b2c3d4''" 5 "WORK_DIR st30" None w0
      "\<lparr>stdout = lit ''before'' @ [NL] @ lit ''after'' @ [NL], stderr = [], error = None,
           plots = [\<lparr>plot_format = lit ''png'', plot_data = lit ''iVBORw==''\<rparr>],
           files = [], install_output = []\<rparr>"]
  by (simp add: run_defs sample_defs str_defs)

section \<open>Collected artifacts\<close>

text \<open>
  C9, as stated, fails: a regular file of the workspace root whose suffix is \<open>.pyc\<close> is
  neither the source file nor an image, and it is not returned as a file.
\<close>

theorem pyc_not_returned_counterexample:
  "snd (execute_advanced st30 env_files (lit ''a1b2c3d4'') arq5 w0) =
     Inr \<lparr>adv_success = True, adv_stdout = [], adv_stderr = [], adv_error = None,
           adv_plots = [\<lparr>plot_format = lit ''png'', plot_data = lit ''iVBORw==''\<rparr>,
                        \<lparr>plot_format = lit ''png'', plot_data = []\<rparr>],
           adv_files = [\<lparr>filename = lit ''out.csv'', file_data = lit ''YQ=='', file_size = 1\<rparr>],
           adv_install_output = []\<rparr> \<and>
   pyc_entry \<in> set (exec_dir_entries env_files) \<and> entry_is_file pyc_entry \<and>
   entry_name pyc_entry = lit ''cache.pyc'' \<and> entry_content pyc_entry = Some [1, 2, 3]"
  by (simp add: run_defs sample_defs str_defs)

text \<open>
  C9, amended. Take a request that returns a result and whose dependency stage did not
  end it (no dependencies, or pip exited with status 0), also when the child was killed at
  the deadline, and a workspace in which the image files (lower-cased suffix \<open>.png\<close>) of
  the plots subdirectory and of the root are exactly the entries whose name ends in
  \<open>.png\<close>. Then the result holds one plot of format \<open>png\<close>, base64-encoded, for every
  image that can be read, those of the plots subdirectory first and those of the root
  after them, in listing order; and one file (name, base64 data, byte length) for every
  regular file of the root that can be read, other than \<open>script.py\<close>, the image files
  and the files whose lower-cased suffix is \<open>.pyc\<close>, in listing order. An entry that
  cannot be read is left out and the others are still returned.
\<close>

theorem artifacts_collected:
  assumes "snd (execute_python_code e i t wd deps w) = Inr r"
    and "deps = None \<or> deps = Some [] \<or> (\<exists>o1 o2. pip_outcome e = Exited 0 o1 o2)"
    and "\<forall>f \<in> set (plot_dir_entries e @ exec_dir_entries e).
           is_png_image f = suffix (lit ''.png'') (entry_name f)"
  shows "plots r =
       map (\<lambda>bs. \<lparr>plot_format = lit ''png'', plot_data = b64encode bs\<rparr>)
         (List.map_filter entry_content
            (filter is_png_image (plot_dir_entries e) @
             filter is_png_image (exec_dir_entries e))) \<and>
     files r =
       map (\<lambda>f. \<lparr>filename = entry_name f, file_data = b64encode (the (entry_content f)),
                  file_size = length (the (entry_content f))\<rparr>)
         (filter (\<lambda>f. entry_is_file f \<and> entry_name f \<noteq> lit ''script.py'' \<and>
                      \<not> is_png_image f \<and>
                      lower (path_suffix (entry_name f)) \<noteq> lit ''.pyc'' \<and>
                      entry_content f \<noteq> None)
            (exec_dir_entries e))"
  using epc_Inr_shape [OF assms(1)]
proof
  assume "\<exists>w2 w3. try_body e t (wd @ [i]) deps w2 initial_result = (w3, Return r)"
  then obtain w2 w3 where "try_body e t (wd @ [i]) deps w2 initial_result = (w3, Return r)"
    by blast
  from try_body_Return_shape [OF this] assms(2) show ?thesis by auto
next
  assume "\<exists>w2 w3. try_body e t (wd @ [i]) deps w2 initial_result = (w3, Continue r)"
  then obtain w2 w3 where "try_body e t (wd @ [i]) deps w2 initial_result = (w3, Continue r)"
    by blast
  from try_body_Continue_shape [OF this]
  have pf: "plots r = collected_plots e \<and> files r = collected_files e" by blast
  have g1: "glob_png (plot_dir_entries e) = filter is_png_image (plot_dir_entries e)"
    unfolding glob_png_def using assms(3) by (intro filter_cong) auto
  have g2: "glob_png (exec_dir_entries e) = filter is_png_image (exec_dir_entries e)"
    unfolding glob_png_def using assms(3) by (intro filter_cong) auto
  have fl: "filter (\<lambda>f. is_output_file f \<and> entry_content f \<noteq> None) (exec_dir_entries e) =
      filter (\<lambda>f. entry_is_file f \<and> entry_name f \<noteq> lit ''script.py'' \<and> \<not> is_png_image f \<and>
                  lower (path_suffix (entry_name f)) \<noteq> lit ''.pyc'' \<and> entry_content f \<noteq> None)
        (exec_dir_entries e)"
    by (intro filter_cong) (auto simp: is_output_file_def is_png_image_def)
  show ?thesis
    by (simp only: pf collected_plots_def collected_files_def g1 g2 fl)
qed

theorem artifacts_collected_witness:
  "snd (execute_python_code env_files (lit ''a1b2c3d4'') 5 (WORK_DIR st30) None w0) =
     Inr \<lparr>stdout = [], stderr = [], error = None,
           plots = [\<lparr>plot_format = lit ''png'', plot_data = lit ''iVBORw==''\<rparr>,
                    \<lparr>plot_format = lit ''png'', plot_data = []\<rparr>],
           files = [\<lparr>filename = lit ''out.csv'', file_data = lit ''YQ=='', file_size = 1\<rparr>],
           install_output = []\<rparr> \<and>
   filter is_png_image (plot_dir_entries env_files) @
   filter is_png_image (exec_dir_entries env_files) = [locked_entry, png_entry, devnull_entry] \<and>
   entry_content locked_entry = None \<and> entry_content png_entry = Some [137, 80, 78, 71] \<and>
   entry_content devnull_entry = Some [] \<and> \<not> entry_is_file devnull_entry"
  using artifacts_collected [of env_files "lit ''a1b2c3d4''" 5 "WORK_DIR st30" None w0
      "\<lparr>stdout = [], stderr = [], error = None,
           plots = [\<lparr>plot_format = lit ''png'', plot_data = lit ''iVBORw==''\<rparr>,
                    \<lparr>plot_format = lit ''png'', plot_data = []\<rparr>],
           files = [\<lparr>filename = lit ''out.csv'', file_data = lit ''YQ=='', file_size = 1\<rparr>],
           install_output = []\<rparr>"]
  by (simp add: run_defs sample_defs str_defs)

section \<open>The error message after a non-zero exit\<close>

text \<open>
  C8 on a child that writes \<open>Error: boom\<close> to stderr without a newline and exits with
  status 1: stderr contains \<open>Error:\<close>, its split on newline has one element, the index
  \<open>-2\<close> raises IndexError, and the request ends with that exception instead of a reported
  error.
\<close>

theorem stderr_without_newline_raises:
  "script_outcome env_error_no_newline = Exited 1 [] (lit ''Error: boom'') \<and>
   snd (execute_code st30 env_error_no_newline (lit ''a1b2c3d4'') rq5 w0) = Inl IndexError"
  by (simp add: run_defs sample_defs str_defs sublist_code)

section \<open>The output cap\<close>

text \<open>
  C6 on a child that prints 102400 times the letter U+00E9: the slice keeps 102400 code
  points, which are 204800 bytes of UTF-8, twice the cap of 100 KiB.
\<close>

theorem output_cap_counts_code_points:
  "script_outcome env_accents = Exited 0 (replicate 102400 233) [] \<and>
   snd (execute_code st30 env_accents (lit ''a1b2c3d4'') rq5 w0) =
     Inr \<lparr>success = True, resp_stdout = replicate 102400 233, resp_stderr = [],
           resp_error = None, resp_plots = []\<rparr> \<and>
   byte_length (replicate 102400 233) = 204800 \<and> MAX_OUTPUT_SIZE = 102400"
proof -
  have so: "script_outcome env_accents = Exited 0 (replicate 102400 233) []"
    by (simp add: env_accents_def)
  have ws: "write_script_ok env_accents" and ls: "listing_ok env_accents"
    by (simp_all add: env_accents_def)
  let ?w = "mkdir (WORK_DIR st30 @ [lit ''a1b2c3d4'', lit ''plots''])
              (mkdir (WORK_DIR st30 @ [lit ''a1b2c3d4'']) w0)"
  have i: "install_dependencies env_accents None ?w initial_result = (?w, Continue initial_result)"
    by (rule install_skip) simp
  note r = run_exit0 [OF ws so, of "WORK_DIR st30 @ [lit ''a1b2c3d4'']" 5 ?w initial_result]
  have cp: "collected_plots env_accents = []"
    by (simp add: collected_plots_def env_accents_def glob_png_def script_entry_def
        plots_entry_def lit_def suffix_to_prefix map_filter_simps)
  have sp: "strip_plot_markers (replicate 102400 233) = replicate 102400 233"
    by (rule strip_plain) (simp_all add: NL_def)
  have "snd (execute_python_code env_accents (lit ''a1b2c3d4'') 5 (WORK_DIR st30) None w0) =
     Inr \<lparr>stdout = replicate 102400 233, stderr = [], error = None, plots = [],
           files = collected_files env_accents, install_output = []\<rparr>"
    using epc_snd_Continue [OF i r ls] cp sp
    by (simp add: initial_result_def MAX_OUTPUT_SIZE_def)
  then have "snd (execute_code st30 env_accents (lit ''a1b2c3d4'') rq5 w0) =
     Inr \<lparr>success = True, resp_stdout = replicate 102400 233, resp_stderr = [],
           resp_error = None, resp_plots = []\<rparr>"
    by (simp add: execute_code_snd effective_timeout_def py_or_def rq5_def st30_def
        build_response_def)
  moreover have "byte_length (replicate 102400 233) = 204800"
    by (simp add: byte_length_def utf8_len_def sum_list_replicate)
  ultimately show ?thesis using so by (simp add: MAX_OUTPUT_SIZE_def)
qed

section \<open>Files in the responses\<close>

text \<open>
  C10: the response of the basic execute endpoint is built from the result by
  \<open>build_response\<close>, which has no files field and does not read the files of the result,
  so the file list that the collector computed is dropped. Whatever entries other than
  those ending in \<open>.png\<close> the workspace holds, the responses of the execute endpoint
  and of the execute-with-files endpoint, which uses the same response type, are the same.
  The files of an execute-advanced response are the files of the result.
\<close>

theorem basic_response_without_files:
  "snd (execute_code st e i rq w) =
     map_sum id build_response
       (snd (execute_python_code e i (effective_timeout st (timeout rq)) (WORK_DIR st) None w)) \<and>
   build_response (r\<lparr>files := fs\<rparr>) = build_response r \<and>
   (glob_png es = glob_png (exec_dir_entries e) \<longrightarrow>
      snd (execute_code st (e\<lparr>exec_dir_entries := es\<rparr>) i rq w) =
      snd (execute_code st e i rq w) \<and>
      snd (execute_with_files st (e\<lparr>exec_dir_entries := es\<rparr>) i j c ups t w) =
      snd (execute_with_files st e i j c ups t w)) \<and>
   (snd (execute_advanced st e i arq w) = Inr aresp \<longrightarrow>
      (\<exists>r'. snd (execute_python_code e i (effective_timeout st (adv_timeout arq)) (WORK_DIR st)
                  (Some (dependencies arq)) w) = Inr r' \<and>
            adv_files aresp = files r'))"
proof (intro conjI impI)
  show "snd (execute_code st e i rq w) =
     map_sum id build_response
       (snd (execute_python_code e i (effective_timeout st (timeout rq)) (WORK_DIR st) None w))"
    by (rule execute_code_snd)
next
  show "build_response (r\<lparr>files := fs\<rparr>) = build_response r"
    by (rule build_response_files)
next
  assume g: "glob_png es = glob_png (exec_dir_entries e)"
  from epc_files_irrelevant [OF g]
  show "snd (execute_code st (e\<lparr>exec_dir_entries := es\<rparr>) i rq w) = snd (execute_code st e i rq w)"
    by (simp add: execute_code_snd)
next
  assume g: "glob_png es = glob_png (exec_dir_entries e)"
  show "snd (execute_with_files st (e\<lparr>exec_dir_entries := es\<rparr>) i j c ups t w) =
      snd (execute_with_files st e i j c ups t w)"
    by (simp add: execute_with_files_snd save_uploads_entries epc_files_irrelevant [OF g]
          split: prod.splits bool.splits)
next
  assume "snd (execute_advanced st e i arq w) = Inr aresp"
  then show "\<exists>r'. snd (execute_python_code e i (effective_timeout st (adv_timeout arq))
      (WORK_DIR st) (Some (dependencies arq)) w) = Inr r' \<and> adv_files aresp = files r'"
    by (auto simp: execute_advanced_snd build_advanced_response_def map_sum_def split: sum.splits)
qed

theorem basic_response_without_files_witness:
  "glob_png [script_entry, plots_entry, csv_entry] = glob_png (exec_dir_entries env_hello) \<and>
   snd (execute_code st30 env_outfile (lit ''a1b2c3d4'') rq5 w0) =
   snd (execute_code st30 env_hello (lit ''a1b2c3d4'') rq5 w0) \<and>
   snd (execute_python_code env_outfile (lit ''a1b2c3d4'') 5 (WORK_DIR st30) None w0) =
     Inr \<lparr>stdout = lit ''hello'' @ [NL], stderr = [], error = None, plots = [],
           files = [\<lparr>filename = lit ''out.csv'', file_data = lit ''YQ=='', file_size = 1\<rparr>],
           install_output = []\<rparr> \<and>
   snd (execute_code st30 env_outfile (lit ''a1b2c3d4'') rq5 w0) =
     Inr \<lparr>success = True, resp_stdout = lit ''hello'' @ [NL], resp_stderr = [],
           resp_error = None, resp_plots = []\<rparr> \<and>
   snd (execute_advanced st30 env_outfile (lit ''a1b2c3d4'') arq5 w0) =
     Inr \<lparr>adv_success = True, adv_stdout = lit ''hello'' @ [NL], adv_stderr = [], adv_error = None,
           adv_plots = [],
           adv_files = [\<lparr>filename = lit ''out.csv'', file_data = lit ''YQ=='', file_size = 1\<rparr>],
           adv_install_output = []\<rparr>"
  using basic_response_without_files [of st30 env_hello "lit ''a1b2c3d4''" rq5 w0 _ _
      "[script_entry, plots_entry, csv_entry]" _ _ _ _ arq5
      "\<lparr>adv_success = True, adv_stdout = lit ''hello'' @ [NL], adv_stderr = [], adv_error = None,
           adv_plots = [],
           adv_files = [\<lparr>filename = lit ''out.csv'', file_data = lit ''YQ=='', file_size = 1\<rparr>],
           adv_install_output = []\<rparr>"]
  by (simp add: run_defs sample_defs str_defs)

section \<open>Failed installation of dependencies\<close>

text \<open>
  C5: when the execute-advanced request lists dependencies and pip exits with a non-zero
  status or runs into its timeout of 60 seconds, the request returns a response whose
  error is set (the pip output follows \<open>Failed to install dependencies: \<close> after a
  non-zero exit), whose stdout and stderr are empty and which has no plots and no files;
  between the creation and the removal of the workspace the only effect is the pip
  process, so no script is written or run. With an empty dependency list, and on the
  execute endpoint, no pip process is started.
\<close>

theorem install_failure_short_circuits:
  "(dependencies arq \<noteq> [] \<and>
    ((\<exists>rc out err. pip_outcome e = Exited rc out err \<and> rc \<noteq> 0) \<or>
     (\<exists>out err. pip_outcome e = TimeoutExpired out err)) \<longrightarrow>
      (\<exists>resp. snd (execute_advanced st e i arq w) = Inr resp \<and>
         \<not> adv_success resp \<and> adv_error resp \<noteq> None \<and>
         adv_stdout resp = [] \<and> adv_stderr resp = [] \<and>
         adv_plots resp = [] \<and> adv_files resp = [] \<and>
         (\<forall>rc out err. pip_outcome e = Exited rc out err \<longrightarrow>
            adv_install_output resp = out @ err \<and>
            adv_error resp = Some (lit ''Failed to install dependencies: '' @ out @ err)) \<and>
         (\<forall>out err. pip_outcome e = TimeoutExpired out err \<longrightarrow>
            adv_error resp = Some (lit ''Dependency installation timed out''))) \<and>
      trace (fst (execute_advanced st e i arq w)) =
        trace w @ [Mkdir (WORK_DIR st @ [i]), Mkdir (WORK_DIR st @ [i, lit ''plots'']),
                   SpawnPip (dependencies arq) 60, Rmtree (WORK_DIR st @ [i])] @
        (if rmtree_ok e (WORK_DIR st @ [i]) then []
         else [Warn (CleanupFailed (WORK_DIR st @ [i]))])) \<and>
   (dependencies arq = [] \<longrightarrow>
      (\<exists>evs. trace (fst (execute_advanced st e i arq w)) = trace w @ evs \<and>
             (\<forall>ds tm. SpawnPip ds tm \<notin> set evs))) \<and>
   (\<exists>evs. trace (fst (execute_code st e i rq w)) = trace w @ evs \<and>
          (\<forall>ds tm. SpawnPip ds tm \<notin> set evs))"
proof (intro conjI impI)
  assume a: "dependencies arq \<noteq> [] \<and>
    ((\<exists>rc out err. pip_outcome e = Exited rc out err \<and> rc \<noteq> 0) \<or>
     (\<exists>out err. pip_outcome e = TimeoutExpired out err))"
  then have ne: "dependencies arq \<noteq> []" by simp
  let ?w2 = "mkdir (WORK_DIR st @ [i, lit ''plots'']) (mkdir (WORK_DIR st @ [i]) w)"
  from a have "(\<exists>rc out err. pip_outcome e = Exited rc out err \<and> rc \<noteq> 0) \<or>
     (\<exists>out err. pip_outcome e = TimeoutExpired out err)" by simp
  then have "\<exists>r1. install_dependencies e (Some (dependencies arq)) ?w2 initial_result =
            (emit (SpawnPip (dependencies arq) 60) ?w2, Return r1) \<and>
      error r1 \<noteq> None \<and> stdout r1 = [] \<and> stderr r1 = [] \<and> plots r1 = [] \<and> files r1 = [] \<and>
      (\<forall>rc out err. pip_outcome e = Exited rc out err \<longrightarrow>
            install_output r1 = out @ err \<and>
            error r1 = Some (lit ''Failed to install dependencies: '' @ out @ err)) \<and>
      (\<forall>out err. pip_outcome e = TimeoutExpired out err \<longrightarrow>
            error r1 = Some (lit ''Dependency installation timed out''))"
  proof
    assume "\<exists>rc out err. pip_outcome e = Exited rc out err \<and> rc \<noteq> 0"
    then obtain rc out err where p: "pip_outcome e = Exited rc out err" "rc \<noteq> 0" by blast
    from install_nonzero [OF ne p, of ?w2 initial_result] p show ?thesis
      by (simp add: initial_result_def)
  next
    assume "\<exists>out err. pip_outcome e = TimeoutExpired out err"
    then obtain out err where p: "pip_outcome e = TimeoutExpired out err" by blast
    from install_timeout [OF ne p, of ?w2 initial_result] p show ?thesis
      by (simp add: initial_result_def)
  qed
  then obtain r1 where i: "install_dependencies e (Some (dependencies arq)) ?w2 initial_result =
            (emit (SpawnPip (dependencies arq) 60) ?w2, Return r1)"
    and f: "error r1 \<noteq> None \<and> stdout r1 = [] \<and> stderr r1 = [] \<and> plots r1 = [] \<and> files r1 = [] \<and>
      (\<forall>rc out err. pip_outcome e = Exited rc out err \<longrightarrow>
            install_output r1 = out @ err \<and>
            error r1 = Some (lit ''Failed to install dependencies: '' @ out @ err)) \<and>
      (\<forall>out err. pip_outcome e = TimeoutExpired out err \<longrightarrow>
            error r1 = Some (lit ''Dependency installation timed out''))"
    by blast
  note af = adv_install_failure [OF ne i]
  from af f show "\<exists>resp. snd (execute_advanced st e i arq w) = Inr resp \<and>
         \<not> adv_success resp \<and> adv_error resp \<noteq> None \<and>
         adv_stdout resp = [] \<and> adv_stderr resp = [] \<and>
         adv_plots resp = [] \<and> adv_files resp = [] \<and>
         (\<forall>rc out err. pip_outcome e = Exited rc out err \<longrightarrow>
            adv_install_output resp = out @ err \<and>
            adv_error resp = Some (lit ''Failed to install dependencies: '' @ out @ err)) \<and>
         (\<forall>out err. pip_outcome e = TimeoutExpired out err \<longrightarrow>
            adv_error resp = Some (lit ''Dependency installation timed out''))"
    by (intro exI [of _ "build_advanced_response r1"]) (simp add: build_advanced_response_def)
  from af show "trace (fst (execute_advanced st e i arq w)) =
        trace w @ [Mkdir (WORK_DIR st @ [i]), Mkdir (WORK_DIR st @ [i, lit ''plots'']),
                   SpawnPip (dependencies arq) 60, Rmtree (WORK_DIR st @ [i])] @
        (if rmtree_ok e (WORK_DIR st @ [i]) then []
         else [Warn (CleanupFailed (WORK_DIR st @ [i]))])"
    by simp
next
  assume "dependencies arq = []"
  then show "\<exists>evs. trace (fst (execute_advanced st e i arq w)) = trace w @ evs \<and>
             (\<forall>ds tm. SpawnPip ds tm \<notin> set evs)"
    using epc_no_pip [of "Some (dependencies arq)" e i
        "effective_timeout st (adv_timeout arq)" "WORK_DIR st" w]
    by (simp add: execute_advanced_fst)
next
  show "\<exists>evs. trace (fst (execute_code st e i rq w)) = trace w @ evs \<and>
          (\<forall>ds tm. SpawnPip ds tm \<notin> set evs)"
    using epc_no_pip [of None e i "effective_timeout st (timeout rq)" "WORK_DIR st" w]
    by (simp add: execute_code_fst)
qed

theorem install_failure_short_circuits_witness:
  "dependencies arq_dep = [lit ''nonexistent-package-xyz''] \<and>
   pip_outcome env_pip_fail = Exited 1 [] (lit ''ERROR: No matching distribution'') \<and>
   snd (execute_advanced st30 env_pip_fail (lit ''a1b2c3d4'') arq_dep w0) =
     Inr \<lparr>adv_success = False, adv_stdout = [], adv_stderr = [],
           adv_error = Some (lit ''Failed to install dependencies: ERROR: No matching distribution''),
           adv_plots = [], adv_files = [],
           adv_install_output = lit ''ERROR: No matching distribution''\<rparr> \<and>
   trace (fst (execute_advanced st30 env_pip_fail (lit ''a1b2c3d4'') arq_dep w0)) =
     [Mkdir [lit ''tmp'', lit ''code-executor'', lit ''a1b2c3d4''],
      Mkdir [lit ''tmp'', lit ''code-executor'', lit ''a1b2c3d4'', lit ''plots''],
      SpawnPip [lit ''nonexistent-package-xyz''] 60,
      Rmtree [lit ''tmp'', lit ''code-executor'', lit ''a1b2c3d4'']] \<and>
   dependencies arq5 = [] \<and>
   trace (fst (execute_advanced st30 env_pip_fail (lit ''a1b2c3d4'') arq5 w0)) =
     [Mkdir [lit ''tmp'', lit ''code-executor'', lit ''a1b2c3d4''],
      Mkdir [lit ''tmp'', lit ''code-executor'', lit ''a1b2c3d4'', lit ''plots''],
      WriteScript [lit ''tmp'', lit ''code-executor'', lit ''a1b2c3d4'', lit ''script.py''],
      SpawnScript [lit ''tmp'', lit ''code-executor'', lit ''a1b2c3d4'', lit ''script.py''] 5,
      Rmtree [lit ''tmp'', lit ''code-executor'', lit ''a1b2c3d4'']]"
  using install_failure_short_circuits [of arq_dep env_pip_fail st30 "lit ''a1b2c3d4''" w0 rq5]
  by (simp add: run_defs sample_defs str_defs)

section \<open>The workspace directory\<close>




end
